theory Spec2Isabelle
  imports Complex_Main
begin

section \<open>Console: Python strings, \<open>input\<close> and \<open>print\<close>\<close>

text \<open>
  A Python \<open>str\<close> is modelled as a \<open>string\<close> whose characters are the code points
  0 to 255 (Latin-1); the character classes below are the Unicode ones restricted to
  that range. Standard input is the list of lines still to be read (without their line
  ends), standard output the list of chunks written so far. \<open>input\<close> writes its prompt,
  then takes the next line, and raises \<open>EOFError\<close> when no line is left.
\<close>

datatype error = ValueError | EOFError | TypeError | IndexError
  | OperationalError | OverflowError | DataError | IntegrityError | ProgrammingError

text \<open>
  A float is modelled by the number it stands for, a rational when finite; the negative
  zero, the two infinities and NaN are values of their own, and \<open>Finite 0\<close> is the
  positive zero.
\<close>

datatype pyfloat = Finite rat | NegZero | PosInf | NegInf | NaN

datatype pyvalue = VNone | VInt int | VFloat pyfloat | VStr string

type_synonym row = "pyvalue list"

record table =
  columns :: "(string \<times> string) list"
  rows :: "row list"

type_synonym database = "string \<rightharpoonup> table"

datatype stmt =
    CreateTableIfNotExists string "string list"
  | InsertValues string "pyvalue list"
  | SelectCountWhere string "(string \<times> pyvalue) list"
  | SelectAll string
  | SelectMaxId string

datatype event = Connect string | Execute stmt | Commit | Close

record world =
  stdin :: "string list"
  stdout :: "string list"
  files :: "string \<Rightarrow> database"
  log :: "event list"

definition DB :: string where
  "DB = ''AlcoholIntakeTracker.db''"

definition print :: "string \<Rightarrow> world \<Rightarrow> world" where
  "print line w = w\<lparr>stdout := stdout w @ [line]\<rparr>"

definition input :: "string \<Rightarrow> world \<Rightarrow> (error + string) \<times> world" where
  "input display_string w =
     (let w1 = w\<lparr>stdout := stdout w @ [display_string]\<rparr>
      in case stdin w1 of
           [] \<Rightarrow> (Inl EOFError, w1)
         | l # ls \<Rightarrow> (Inr l, w1\<lparr>stdin := ls\<rparr>))"

subsection \<open>Character classes\<close>

definition code :: "char \<Rightarrow> nat" where
  "code c = of_char c"

definition is_digit :: "char \<Rightarrow> bool" where
  "is_digit c = (48 \<le> code c \<and> code c \<le> 57)"

definition digit_val :: "char \<Rightarrow> int" where
  "digit_val c = int (code c) - 48"

definition int_space :: "char \<Rightarrow> bool" where
  "int_space c = ((9 \<le> code c \<and> code c \<le> 13) \<or> code c = 32
     \<or> code c = 133 \<or> code c = 160)"

definition is_letter :: "char \<Rightarrow> bool" where
  "is_letter c = ((65 \<le> code c \<and> code c \<le> 90) \<or> (97 \<le> code c \<and> code c \<le> 122)
     \<or> code c = 170 \<or> code c = 181 \<or> code c = 186
     \<or> (192 \<le> code c \<and> code c \<le> 214) \<or> (216 \<le> code c \<and> code c \<le> 246)
     \<or> 248 \<le> code c)"

definition py_lower_char :: "char \<Rightarrow> char" where
  "py_lower_char c =
     (if (65 \<le> code c \<and> code c \<le> 90) \<or> (192 \<le> code c \<and> code c \<le> 214)
         \<or> (216 \<le> code c \<and> code c \<le> 222)
      then char_of (code c + 32) else c)"

definition py_lower :: "string \<Rightarrow> string" where
  "py_lower s = map py_lower_char s"

text \<open>\<open>str.isalpha\<close>: at least one character, and every character a letter.\<close>

definition py_isalpha :: "string \<Rightarrow> bool" where
  "py_isalpha s = (s \<noteq> [] \<and> list_all is_letter s)"

subsection \<open>\<open>int(str)\<close>\<close>

text \<open>
  \<open>int\<close> of a string, base 10: white space is stripped at both ends (the ASCII
  white space and, of the characters from 128 on, the two Unicode spaces), one sign may
  follow, then decimal digits, where single underscores may stand between two digits.
  More than 4300 digits are refused (the interpreter's default limit). Anything else
  raises \<open>ValueError\<close>, here \<open>None\<close>.
\<close>

definition py_strip :: "string \<Rightarrow> string" where
  "py_strip s = rev (dropWhile int_space (rev (dropWhile int_space s)))"

fun digits_ok :: "string \<Rightarrow> bool" where
  "digits_ok [] = False"
| "digits_ok [c] = is_digit c"
| "digits_ok (c # d # cs) =
     (if is_digit c
      then (if d = CHR ''_''
            then (case cs of [] \<Rightarrow> False | e # _ \<Rightarrow> is_digit e \<and> digits_ok cs)
            else digits_ok (d # cs))
      else False)"

definition digits_value :: "string \<Rightarrow> int" where
  "digits_value ds = foldl (\<lambda>a c. 10 * a + digit_val c) 0 ds"

definition py_int :: "string \<Rightarrow> int option" where
  "py_int s =
     (let t = py_strip s;
          neg = (case t of c # _ \<Rightarrow> c = CHR ''-'' | [] \<Rightarrow> False);
          body = (case t of c # r \<Rightarrow> if c = CHR ''-'' \<or> c = CHR ''+'' then r else t | [] \<Rightarrow> t);
          ds = filter is_digit body
      in if digits_ok body \<and> length ds \<le> 4300
         then Some (if neg then - digits_value ds else digits_value ds)
         else None)"

subsection \<open>The validated input readers\<close>

text \<open>
  Each reader loops until a line is accepted. A rejected line consumes one line of
  standard input, so the loop is a recursion on the lines left; when they run out,
  \<open>input\<close> raises \<open>EOFError\<close>, which the readers do not catch.
\<close>

function get_int :: "string \<Rightarrow> world \<Rightarrow> (error + int) \<times> world" where
  "get_int display_string w =
     (case input display_string w of
        (Inl e, w1) \<Rightarrow> (Inl e, w1)
      | (Inr user_input, w1) \<Rightarrow>
          (case py_int user_input of
             Some n \<Rightarrow> (Inr n, w1)
           | None \<Rightarrow> get_int display_string
                       (print ''<<< Please enter whole numbers only >>>'' w1)))"
  by pat_completeness auto
termination
  by (relation "measure (\<lambda>(p, w). length (stdin w))")
     (auto simp: input_def print_def Let_def split: list.splits)

function get_str :: "string \<Rightarrow> world \<Rightarrow> (error + string) \<times> world" where
  "get_str display_string w =
     (case input display_string w of
        (Inl e, w1) \<Rightarrow> (Inl e, w1)
      | (Inr user_input, w1) \<Rightarrow>
          (if py_isalpha user_input then (Inr user_input, w1)
           else get_str display_string (print ''<<< Please enter letters only >>>'' w1)))"
  by pat_completeness auto
termination
  by (relation "measure (\<lambda>(p, w). length (stdin w))")
     (auto simp: input_def print_def Let_def split: list.splits)

section \<open>The embedded store\<close>

text \<open>
  The program reaches the store through five statements, built as SQL text from a table
  name, column definitions or column names, and run with \<open>cursor.execute\<close>. The model
  keeps each statement as a value of \<open>stmt\<close> (the name, the column definitions, the
  bound values).

  The engine's answer is modelled for a fragment of these statements, \<open>modelled\<close>
  below: the table name and the column names are plain identifiers (letters, digits
  and underscores, at most 1000 of them, no SQL keyword, none of the engine's reserved
  or special names), a column definition is a plain name followed by the plain words of
  its type (as \<open>id INTEGER\<close>), and the text of the statement and the text bound are far
  below the engine's size limits. A table of
  the model stands for a table of the store with these columns and nothing else: no
  constraint, default, index, trigger or view. Outside the fragment (a qualified or
  quoted name, a column constraint, a parenthesised type, any other SQL text put where
  the name goes) the answer is not modelled but taken as a parameter, as is what engine
  and interpreter compute by floating-point rounding or by their number syntax: the
  record \<open>platform\<close>.

  Names are compared without regard to ASCII case, and a database maps the lower-case
  table name to the table. A database name is the path of a file.
\<close>

datatype affinity = INTEGER | TEXT | BLOB | REAL | NUMERIC

datatype result = NoResult | Count nat | Scalar pyvalue | Rows "string list" "row list"

record platform =
  convert :: "affinity \<Rightarrow> pyvalue \<Rightarrow> pyvalue"
    \<comment> \<open>the engine's conversion of a value whose storage class is not the one its
        column's affinity keeps (text in a numeric column, a number in a text column)\<close>
  float_of_str :: "string \<Rightarrow> pyfloat option"
    \<comment> \<open>\<open>float(str)\<close>; \<open>None\<close> is \<open>ValueError\<close>\<close>
  float_succ :: "pyfloat \<Rightarrow> pyfloat"
    \<comment> \<open>\<open>x + 1\<close> on a float\<close>
  str_of_float :: "pyfloat \<Rightarrow> string"
    \<comment> \<open>\<open>str(x)\<close> of a float\<close>
  beyond :: "stmt \<Rightarrow> database \<Rightarrow> error + database \<times> result"
    \<comment> \<open>the engine's answer to a statement outside the modelled fragment\<close>

subsection \<open>Names and declared types\<close>

definition sql_lower_char :: "char \<Rightarrow> char" where
  "sql_lower_char c = (if 65 \<le> code c \<and> code c \<le> 90 then char_of (code c + 32) else c)"

definition sql_lower :: "string \<Rightarrow> string" where
  "sql_lower s = map sql_lower_char s"

definition is_id_start :: "char \<Rightarrow> bool" where
  "is_id_start c = ((65 \<le> code c \<and> code c \<le> 90) \<or> (97 \<le> code c \<and> code c \<le> 122)
     \<or> c = CHR ''_'')"

definition is_id_char :: "char \<Rightarrow> bool" where
  "is_id_char c = (is_id_start c \<or> is_digit c)"

definition is_identifier :: "string \<Rightarrow> bool" where
  "is_identifier s = (case s of [] \<Rightarrow> False | c # cs \<Rightarrow> is_id_start c \<and> list_all is_id_char cs)"

text \<open>The engine's keywords, all 147, in lower case.\<close>

definition sql_keywords :: "string list" where
  "sql_keywords =
    [''abort'', ''action'', ''add'', ''after'', ''all'', ''alter'', ''always'',
     ''analyze'', ''and'', ''as'', ''asc'', ''attach'', ''autoincrement'', ''before'',
     ''begin'', ''between'', ''by'', ''cascade'', ''case'', ''cast'', ''check'',
     ''collate'', ''column'', ''commit'', ''conflict'', ''constraint'', ''create'',
     ''cross'', ''current'', ''current_date'', ''current_time'', ''current_timestamp'',
     ''database'', ''default'', ''deferrable'', ''deferred'', ''delete'', ''desc'',
     ''detach'', ''distinct'', ''do'', ''drop'', ''each'', ''else'', ''end'', ''escape'',
     ''except'', ''exclude'', ''exclusive'', ''exists'', ''explain'', ''fail'', ''filter'',
     ''first'', ''following'', ''for'', ''foreign'', ''from'', ''full'', ''generated'',
     ''glob'', ''group'', ''groups'', ''having'', ''if'', ''ignore'', ''immediate'',
     ''in'', ''index'', ''indexed'', ''initially'', ''inner'', ''insert'', ''instead'',
     ''intersect'', ''into'', ''is'', ''isnull'', ''join'', ''key'', ''last'', ''left'',
     ''like'', ''limit'', ''match'', ''materialized'', ''natural'', ''no'', ''not'',
     ''nothing'', ''notnull'', ''null'', ''nulls'', ''of'', ''offset'', ''on'', ''or'',
     ''order'', ''others'', ''outer'', ''over'', ''partition'', ''plan'', ''pragma'',
     ''preceding'', ''primary'', ''query'', ''raise'', ''range'', ''recursive'',
     ''references'', ''regexp'', ''reindex'', ''release'', ''rename'', ''replace'',
     ''restrict'', ''returning'', ''right'', ''rollback'', ''row'', ''rows'',
     ''savepoint'', ''select'', ''set'', ''table'', ''temp'', ''temporary'', ''then'',
     ''ties'', ''to'', ''transaction'', ''trigger'', ''unbounded'', ''union'', ''unique'',
     ''update'', ''using'', ''vacuum'', ''values'', ''view'', ''virtual'', ''when'',
     ''where'', ''window'', ''with'', ''without'']"

text \<open>
  Names with a meaning of their own where a column name is expected: the three names of
  the hidden row identifier and the two truth values.
\<close>

definition sql_special :: "string list" where
  "sql_special = [''rowid'', ''oid'', ''_rowid_'', ''true'', ''false'']"

text \<open>
  A plain name: an identifier of at most 1000 characters that is no keyword and no
  special name and does not begin with the prefix the engine reserves for its own
  tables.
\<close>

definition plain_name :: "string \<Rightarrow> bool" where
  "plain_name s =
     (is_identifier s \<and> length s \<le> 1000
      \<and> sql_lower s \<notin> set sql_keywords \<and> sql_lower s \<notin> set sql_special
      \<and> take 7 (sql_lower s) \<noteq> ''sqlite_'')"

definition sql_space :: "char \<Rightarrow> bool" where
  "sql_space c = (code c = 9 \<or> code c = 10 \<or> code c = 12 \<or> code c = 13 \<or> code c = 32)"

fun split_words :: "string \<Rightarrow> string \<Rightarrow> string list" where
  "split_words acc [] = (if acc = [] then [] else [acc])"
| "split_words acc (c # cs) =
     (if sql_space c
      then (if acc = [] then split_words [] cs else acc # split_words [] cs)
      else split_words (acc @ [c]) cs)"

fun join_words :: "string list \<Rightarrow> string" where
  "join_words [] = []"
| "join_words [t] = t"
| "join_words (t # u # us) = t @ '' '' @ join_words (u # us)"

text \<open>
  A plain column definition, a plain name and the plain words of its type; \<open>None\<close> for
  any other text.
\<close>

definition column_def :: "string \<Rightarrow> (string \<times> string) option" where
  "column_def s =
     (case split_words [] s of
        [] \<Rightarrow> None
      | n # ts \<Rightarrow>
          if plain_name n \<and> list_all plain_name ts then Some (n, join_words ts)
          else None)"

fun column_defs :: "string list \<Rightarrow> (string \<times> string) list option" where
  "column_defs [] = Some []"
| "column_defs (s # ss) =
     (case column_def s of
        None \<Rightarrow> None
      | Some c \<Rightarrow> (case column_defs ss of None \<Rightarrow> None | Some cs \<Rightarrow> Some (c # cs)))"

text \<open>
  The columns of a table are plain: at most 2000, each a plain name with a type of plain
  words.
\<close>

definition plain_columns :: "(string \<times> string) list \<Rightarrow> bool" where
  "plain_columns cs =
     (length cs \<le> 2000
      \<and> list_all (\<lambda>(n, t). plain_name n \<and> list_all plain_name (split_words [] t)) cs)"

fun has_substring :: "string \<Rightarrow> string \<Rightarrow> bool" where
  "has_substring sub [] = (sub = [])"
| "has_substring sub (c # cs) = (take (length sub) (c # cs) = sub \<or> has_substring sub cs)"

text \<open>The affinity of a column, from its declared type, by the engine's five rules in order.\<close>

definition affinity_of :: "string \<Rightarrow> affinity" where
  "affinity_of decl =
     (let t = sql_lower decl
      in if has_substring ''int'' t then INTEGER
         else if has_substring ''char'' t \<or> has_substring ''clob'' t \<or> has_substring ''text'' t
           then TEXT
         else if has_substring ''blob'' t \<or> t = [] then BLOB
         else if has_substring ''real'' t \<or> has_substring ''floa'' t \<or> has_substring ''doub'' t
           then REAL
         else NUMERIC)"

fun find_column :: "(string \<times> string) list \<Rightarrow> string \<Rightarrow> (nat \<times> affinity) option" where
  "find_column [] k = None"
| "find_column ((n, t) # cs) k =
     (if sql_lower n = sql_lower k then Some (0, affinity_of t)
      else (case find_column cs k of None \<Rightarrow> None | Some (i, a) \<Rightarrow> Some (Suc i, a)))"

text \<open>A row shorter than the column list reads as NULL in the missing columns.\<close>

definition cell :: "row \<Rightarrow> nat \<Rightarrow> pyvalue" where
  "cell r i = (if i < length r then r ! i else VNone)"

subsection \<open>Binding, affinity, comparison\<close>

text \<open>
  Binding a Python value as a statement parameter: an integer outside 64 bits raises
  \<open>OverflowError\<close>, a NaN is bound as NULL.
\<close>

definition bind :: "pyvalue \<Rightarrow> error + pyvalue" where
  "bind v =
     (case v of
        VInt i \<Rightarrow> if - (2 ^ 63) \<le> i \<and> i < 2 ^ 63 then Inr v else Inl OverflowError
      | VFloat f \<Rightarrow> if f = NaN then Inr VNone else Inr v
      | _ \<Rightarrow> Inr v)"

fun bind_all :: "pyvalue list \<Rightarrow> error + pyvalue list" where
  "bind_all [] = Inr []"
| "bind_all (v # vs) =
     (case bind v of
        Inl e \<Rightarrow> Inl e
      | Inr b \<Rightarrow> (case bind_all vs of Inl e \<Rightarrow> Inl e | Inr bs \<Rightarrow> Inr (b # bs)))"

text \<open>
  The engine refuses a statement, a text, and a row, of about \<open>10\<^sup>9\<close> bytes. The fragment
  modelled stays far below: the values of one statement and the characters of their
  texts are at most \<open>10\<^sup>8\<close> together, and so are the column definitions of one statement
  and their characters.
\<close>

fun text_length :: "pyvalue \<Rightarrow> nat" where
  "text_length (VStr s) = length s"
| "text_length v = 0"

definition small_values :: "pyvalue list \<Rightarrow> bool" where
  "small_values vs = (length vs + sum_list (map text_length vs) \<le> 100000000)"

definition small_texts :: "string list \<Rightarrow> bool" where
  "small_texts ss = (length ss + sum_list (map length ss) \<le> 100000000)"

text \<open>
  The storage classes an affinity keeps as they are. A real column does not keep the
  sign of a negative zero.
\<close>

fun keeps :: "affinity \<Rightarrow> pyvalue \<Rightarrow> bool" where
  "keeps a VNone = True"
| "keeps a (VInt i) = (a = INTEGER \<or> a = NUMERIC \<or> a = BLOB)"
| "keeps a (VFloat f) = ((a = REAL \<and> f \<noteq> NegZero) \<or> a = BLOB)"
| "keeps a (VStr s) = (a = TEXT \<or> a = BLOB)"

definition apply_affinity :: "platform \<Rightarrow> affinity \<Rightarrow> pyvalue \<Rightarrow> pyvalue" where
  "apply_affinity P a v = (if keeps a v then v else convert P a v)"

text \<open>
  In \<open>column = ?\<close> the parameter has no affinity of its own: against a numeric column a
  text parameter gets numeric affinity, against a text column a number gets text
  affinity.
\<close>

definition compare_value :: "platform \<Rightarrow> affinity \<Rightarrow> pyvalue \<Rightarrow> pyvalue" where
  "compare_value P a v =
     (case v of
        VNone \<Rightarrow> v
      | VStr s \<Rightarrow> if a = INTEGER \<or> a = REAL \<or> a = NUMERIC then convert P NUMERIC v else v
      | _ \<Rightarrow> if a = TEXT then convert P TEXT v else v)"

text \<open>The number a float stands for in a comparison: the two zeros are one number.\<close>

definition float_number :: "pyfloat \<Rightarrow> pyfloat" where
  "float_number f = (if f = NegZero then Finite 0 else f)"

text \<open>\<open>=\<close> is true between equal numbers and between equal texts; NULL equals nothing.\<close>

fun sql_equal :: "pyvalue \<Rightarrow> pyvalue \<Rightarrow> bool" where
  "sql_equal (VInt i) (VInt j) = (i = j)"
| "sql_equal (VInt i) (VFloat g) = (float_number g = Finite (of_int i))"
| "sql_equal (VFloat f) (VInt j) = (float_number f = Finite (of_int j))"
| "sql_equal (VFloat f) (VFloat g) = (float_number f = float_number g \<and> f \<noteq> NaN)"
| "sql_equal (VStr s) (VStr t) = (s = t)"
| "sql_equal _ _ = False"

subsection \<open>\<open>MAX\<close>\<close>

text \<open>
  \<open>MAX\<close> skips NULL, orders every number before every text, numbers by value and texts
  by their characters, and keeps the first of several greatest values; over no value
  it is NULL.
\<close>

fun float_less :: "pyfloat \<Rightarrow> pyfloat \<Rightarrow> bool" where
  "float_less NegInf g = (g \<noteq> NegInf \<and> g \<noteq> NaN)"
| "float_less (Finite p) (Finite q) = (p < q)"
| "float_less (Finite p) PosInf = True"
| "float_less _ _ = False"

fun str_less :: "string \<Rightarrow> string \<Rightarrow> bool" where
  "str_less [] [] = False"
| "str_less [] (d # ds) = True"
| "str_less (c # cs) [] = False"
| "str_less (c # cs) (d # ds) = (code c < code d \<or> (c = d \<and> str_less cs ds))"

fun sql_less :: "pyvalue \<Rightarrow> pyvalue \<Rightarrow> bool" where
  "sql_less (VInt i) (VInt j) = (i < j)"
| "sql_less (VInt i) (VFloat g) = float_less (Finite (of_int i)) (float_number g)"
| "sql_less (VFloat f) (VInt j) = float_less (float_number f) (Finite (of_int j))"
| "sql_less (VFloat f) (VFloat g) = float_less (float_number f) (float_number g)"
| "sql_less (VStr s) (VStr t) = str_less s t"
| "sql_less (VInt i) (VStr t) = True"
| "sql_less (VFloat f) (VStr t) = True"
| "sql_less _ _ = False"

definition max_step :: "pyvalue \<Rightarrow> pyvalue \<Rightarrow> pyvalue" where
  "max_step best v =
     (if v = VNone then best
      else if best = VNone then v
      else if sql_less best v then v else best)"

definition sql_max :: "pyvalue list \<Rightarrow> pyvalue" where
  "sql_max vs = foldl max_step VNone vs"

subsection \<open>The five statements\<close>

text \<open>The fragment of statements whose answer is modelled.\<close>

fun modelled :: "stmt \<Rightarrow> database \<Rightarrow> bool" where
  "modelled (CreateTableIfNotExists name cols) d =
     (plain_name name \<and> small_texts cols \<and> column_defs cols \<noteq> None)"
| "modelled (InsertValues name vals) d =
     (plain_name name \<and> small_values vals
      \<and> (case d (sql_lower name) of None \<Rightarrow> True | Some t \<Rightarrow> plain_columns (columns t)))"
| "modelled (SelectCountWhere name conds) d =
     (plain_name name \<and> length conds \<le> 32766 \<and> list_all plain_name (map fst conds)
      \<and> small_values (map snd conds))"
| "modelled (SelectAll name) d = plain_name name"
| "modelled (SelectMaxId name) d = plain_name name"

definition row_matches ::
  "platform \<Rightarrow> (string \<times> string) list \<Rightarrow> (string \<times> pyvalue) list \<Rightarrow> row \<Rightarrow> bool" where
  "row_matches P cols conds r =
     list_all (\<lambda>(k, v). case find_column cols k of
                           None \<Rightarrow> False
                         | Some (i, a) \<Rightarrow> sql_equal (cell r i) (compare_value P a v)) conds"

text \<open>
  The answer to a statement of the fragment. A table has at most 2000 columns, a
  statement at most 32766 parameters, and an expression a depth below 1000, which the
  conjunction of 1000 conditions exceeds. The statement is compiled before its
  parameters are bound, so a missing table or a wrong number of values is reported
  before a value that cannot be bound.
\<close>

fun answer :: "platform \<Rightarrow> stmt \<Rightarrow> database \<Rightarrow> error + database \<times> result" where
  "answer P (CreateTableIfNotExists name cols) d =
     \<comment> \<open>\<open>CREATE TABLE IF NOT EXISTS name(cols)\<close>\<close>
     (if cols = [] then Inl OperationalError
      else case column_defs cols of
        None \<Rightarrow> Inl OperationalError
      | Some cs \<Rightarrow>
          (case d (sql_lower name) of
             Some t \<Rightarrow> Inr (d, NoResult)
           | None \<Rightarrow>
               if distinct (map (sql_lower \<circ> fst) cs) \<and> length cs \<le> 2000
               then Inr (d(sql_lower name \<mapsto> \<lparr>columns = cs, rows = []\<rparr>), NoResult)
               else Inl OperationalError))"
| "answer P (InsertValues name vals) d =
     \<comment> \<open>\<open>INSERT INTO name VALUES (?, ..., ?)\<close>, one placeholder for each value\<close>
     (if vals = [] \<or> 32766 < length vals then Inl OperationalError
      else case d (sql_lower name) of
        None \<Rightarrow> Inl OperationalError
      | Some t \<Rightarrow>
          if length vals \<noteq> length (columns t) then Inl OperationalError
          else (case bind_all vals of
                  Inl e \<Rightarrow> Inl e
                | Inr bs \<Rightarrow>
                    Inr (d(sql_lower name \<mapsto>
                           t\<lparr>rows := rows t @
                              [map2 (\<lambda>c b. apply_affinity P (affinity_of (snd c)) b)
                                 (columns t) bs]\<rparr>),
                         NoResult)))"
| "answer P (SelectCountWhere name conds) d =
     \<comment> \<open>\<open>SELECT COUNT(*) FROM name WHERE k1 = ? AND ... AND kn = ?\<close>\<close>
     (if conds = [] \<or> 999 < length conds then Inl OperationalError
      else case d (sql_lower name) of
        None \<Rightarrow> Inl OperationalError
      | Some t \<Rightarrow>
          if \<exists>k \<in> set (map fst conds). find_column (columns t) k = None
          then Inl OperationalError
          else (case bind_all (map snd conds) of
                  Inl e \<Rightarrow> Inl e
                | Inr bs \<Rightarrow>
                    Inr (d, Count (length (filter
                           (row_matches P (columns t) (zip (map fst conds) bs)) (rows t))))))"
| "answer P (SelectAll name) d =
     \<comment> \<open>\<open>SELECT * FROM name\<close>\<close>
     (case d (sql_lower name) of
        None \<Rightarrow> Inl OperationalError
      | Some t \<Rightarrow> Inr (d, Rows (map fst (columns t)) (rows t)))"
| "answer P (SelectMaxId name) d =
     \<comment> \<open>\<open>SELECT MAX(id) FROM name\<close>\<close>
     (case d (sql_lower name) of
        None \<Rightarrow> Inl OperationalError
      | Some t \<Rightarrow>
          (case find_column (columns t) ''id'' of
             None \<Rightarrow> Inl OperationalError
           | Some (i, a) \<Rightarrow> Inr (d, Scalar (sql_max (map (\<lambda>r. cell r i) (rows t))))))"

definition execute :: "platform \<Rightarrow> stmt \<Rightarrow> database \<Rightarrow> error + database \<times> result" where
  "execute P s d = (if modelled s d then answer P s d else beyond P s d)"

subsection \<open>Connections\<close>

text \<open>
  \<open>sqlite3.connect\<close> gives a connection on the file's committed content; a statement
  works on the connection's copy, \<open>commit\<close> writes the copy to the file, \<open>close\<close>
  drops it. Every call is recorded in the log. A statement that raises leaves the
  connection as it was.
\<close>

definition connect :: "string \<Rightarrow> world \<Rightarrow> database \<times> world" where
  "connect db_name w = (files w db_name, w\<lparr>log := log w @ [Connect db_name]\<rparr>)"

definition cur_execute ::
  "platform \<Rightarrow> stmt \<Rightarrow> database \<Rightarrow> world \<Rightarrow> (error + database \<times> result) \<times> world" where
  "cur_execute P sql_command conn w =
     (execute P sql_command conn, w\<lparr>log := log w @ [Execute sql_command]\<rparr>)"

definition commit :: "string \<Rightarrow> database \<Rightarrow> world \<Rightarrow> world" where
  "commit db_name conn w = w\<lparr>files := (files w)(db_name := conn), log := log w @ [Commit]\<rparr>"

definition close :: "world \<Rightarrow> world" where
  "close w = w\<lparr>log := log w @ [Close]\<rparr>"

text \<open>The connections opened and not closed so far.\<close>

definition open_connections :: "event list \<Rightarrow> int" where
  "open_connections evs =
     int (length (filter (\<lambda>e. case e of Connect n \<Rightarrow> True | _ \<Rightarrow> False) evs))
     - int (length (filter (\<lambda>e. e = Close) evs))"

text \<open>
  \<open>cursor.fetchone()[0]\<close>: the first cell of the first row of the answer; a statement
  without an answer gives \<open>None\<close>, whose index raises \<open>TypeError\<close>.
\<close>

fun fetchone0 :: "result \<Rightarrow> error + pyvalue" where
  "fetchone0 (Count n) = Inr (VInt (int n))"
| "fetchone0 (Scalar v) = Inr v"
| "fetchone0 (Rows cs ((v # vs) # rs)) = Inr v"
| "fetchone0 (Rows cs ([] # rs)) = Inl IndexError"
| "fetchone0 (Rows cs []) = Inl TypeError"
| "fetchone0 NoResult = Inl TypeError"

fun fetchall :: "result \<Rightarrow> row list" where
  "fetchall (Rows cs rs) = rs"
| "fetchall (Count n) = [[VInt (int n)]]"
| "fetchall (Scalar v) = [[v]]"
| "fetchall NoResult = []"

text \<open>\<open>cursor.description\<close>: \<open>None\<close> for a statement without an answer.\<close>

fun description :: "result \<Rightarrow> string list option" where
  "description (Rows cs rs) = Some cs"
| "description _ = None"

section \<open>The program\<close>

definition then_do ::
  "(world \<Rightarrow> (error + 'a) \<times> world) \<Rightarrow> ('a \<Rightarrow> world \<Rightarrow> (error + 'b) \<times> world)
   \<Rightarrow> world \<Rightarrow> (error + 'b) \<times> world" where
  "then_do f g w = (case f w of (Inl e, w1) \<Rightarrow> (Inl e, w1) | (Inr x, w1) \<Rightarrow> g x w1)"

definition return :: "'a \<Rightarrow> world \<Rightarrow> (error + 'a) \<times> world" where
  "return x w = (Inr x, w)"

function get_float :: "platform \<Rightarrow> string \<Rightarrow> world \<Rightarrow> (error + pyfloat) \<times> world" where
  "get_float P display_string w =
     (case input display_string w of
        (Inl e, w1) \<Rightarrow> (Inl e, w1)
      | (Inr user_input, w1) \<Rightarrow>
          (case float_of_str P user_input of
             Some x \<Rightarrow> (Inr x, w1)
           | None \<Rightarrow> get_float P display_string (print ''<<< Please enter numbers only >>>'' w1)))"
  by pat_completeness auto
termination
  by (relation "measure (\<lambda>(P, p, w). length (stdin w))")
     (auto simp: input_def print_def Let_def split: list.splits)

definition create_table ::
  "platform \<Rightarrow> string \<Rightarrow> string \<Rightarrow> string list \<Rightarrow> world \<Rightarrow> (error + unit) \<times> world" where
  "create_table P db_name table_name cols w =
     (let (conn, w1) = connect db_name w;
          sql_command = CreateTableIfNotExists table_name cols
      in case cur_execute P sql_command conn w1 of
           (Inl e, w2) \<Rightarrow> (Inl e, w2)
         | (Inr (conn', res), w2) \<Rightarrow> (Inr (), close (commit db_name conn' w2)))"

definition insert_into_table ::
  "platform \<Rightarrow> string \<Rightarrow> string \<Rightarrow> pyvalue list \<Rightarrow> world \<Rightarrow> (error + unit) \<times> world" where
  "insert_into_table P db_name table_name vals w =
     (let (conn, w1) = connect db_name w;
          sql_command = InsertValues table_name vals
      in case cur_execute P sql_command conn w1 of
           (Inl e, w2) \<Rightarrow> (Inl e, w2)
         | (Inr (conn', res), w2) \<Rightarrow> (Inr (), close (commit db_name conn' w2)))"

text \<open>\<open>result > 0\<close>, for whatever the first cell is.\<close>

fun py_gt0 :: "pyvalue \<Rightarrow> error + bool" where
  "py_gt0 (VInt n) = Inr (0 < n)"
| "py_gt0 (VFloat f) = Inr (float_less (Finite 0) (float_number f))"
| "py_gt0 _ = Inl TypeError"

text \<open>
  The keyword arguments are the list of (name, value) pairs in the order given; Python
  keeps their names distinct.
\<close>

definition entry_already_exists ::
  "platform \<Rightarrow> string \<Rightarrow> (string \<times> pyvalue) list \<Rightarrow> world \<Rightarrow> (error + bool) \<times> world" where
  "entry_already_exists P tbl kwargs w =
     (let (conn, w1) = connect DB w;
          query = SelectCountWhere tbl kwargs
      in case cur_execute P query conn w1 of
           (Inl e, w2) \<Rightarrow> (Inl e, w2)
         | (Inr (conn', res), w2) \<Rightarrow>
             (case fetchone0 res of
                Inl e \<Rightarrow> (Inl e, w2)
              | Inr result \<Rightarrow>
                  (case py_gt0 result of
                     Inl e \<Rightarrow> (Inl e, close w2)
                   | Inr b \<Rightarrow> (Inr b, close w2))))"

text \<open>
  \<open>entry_class\<close> is passed as its \<open>create\<close> method. \<open>table[:-1]\<close> is the name without
  its last character.
\<close>

definition ask_and_insert_entry ::
  "platform \<Rightarrow> string \<Rightarrow> (world \<Rightarrow> (error + pyvalue list) \<times> world) \<Rightarrow> world
   \<Rightarrow> (error + unit) \<times> world" where
  "ask_and_insert_entry P tbl entry_class_create w =
     (let entry_type = py_lower (butlast tbl)
      in case entry_class_create w of
           (Inl e, w1) \<Rightarrow> (Inl e, w1)
         | (Inr entry_data, w1) \<Rightarrow>
             (case entry_data of
                [] \<Rightarrow> (Inl IndexError, w1)
              | entry_id # others \<Rightarrow>
                  (case entry_already_exists P tbl [(''id'', entry_id)] w1 of
                     (Inl e, w2) \<Rightarrow> (Inl e, w2)
                   | (Inr True, w2) \<Rightarrow>
                       (Inr (), print (''This '' @ entry_type @ '' already exists.'') w2)
                   | (Inr False, w2) \<Rightarrow> insert_into_table P DB tbl entry_data w2)))"

subsection \<open>Printing a table\<close>

function str_of_nat :: "nat \<Rightarrow> string" where
  "str_of_nat n =
     (if n < 10 then [char_of (48 + n)]
      else str_of_nat (n div 10) @ [char_of (48 + n mod 10)])"
  by pat_completeness auto
termination
  by (relation "measure id") auto

definition str_of_int :: "int \<Rightarrow> string" where
  "str_of_int i = (if i < 0 then CHR ''-'' # str_of_nat (nat (- i)) else str_of_nat (nat i))"

fun py_str :: "platform \<Rightarrow> pyvalue \<Rightarrow> string" where
  "py_str P VNone = ''None''"
| "py_str P (VInt i) = str_of_int i"
| "py_str P (VFloat f) = str_of_float P f"
| "py_str P (VStr s) = s"

fun py_join :: "string \<Rightarrow> string list \<Rightarrow> string" where
  "py_join sep [] = []"
| "py_join sep [x] = x"
| "py_join sep (x # y # ys) = x @ sep @ py_join sep (y # ys)"

definition view_table :: "platform \<Rightarrow> string \<Rightarrow> world \<Rightarrow> (error + unit) \<times> world" where
  "view_table P table_name w =
     (let (conn, w1) = connect DB w;
          query = SelectAll table_name
      in case cur_execute P query conn w1 of
           (Inl e, w2) \<Rightarrow> (Inl e, w2)
         | (Inr (conn', res), w2) \<Rightarrow>
             (let table_rows = fetchall res
              in case description res of
                   None \<Rightarrow> (Inl TypeError, w2)
                 | Some col_names \<Rightarrow>
                     (let w3 = print (py_join [CHR 0x09] col_names) w2;
                          w4 = foldl (\<lambda>v r. print (py_join [CHR 0x09] (map (py_str P) r)) v)
                                 w3 table_rows
                      in (Inr (), close w4))))"

subsection \<open>The entry builders\<close>

text \<open>\<open>max_id + 1 if max_id is not None else 1\<close>\<close>

fun next_id :: "platform \<Rightarrow> pyvalue \<Rightarrow> error + pyvalue" where
  "next_id P VNone = Inr (VInt 1)"
| "next_id P (VInt i) = Inr (VInt (i + 1))"
| "next_id P (VFloat f) = Inr (VFloat (float_succ P f))"
| "next_id P (VStr s) = Inl TypeError"

definition Drink_create :: "platform \<Rightarrow> world \<Rightarrow> (error + pyvalue list) \<times> world" where
  "Drink_create P w =
     (let (conn, w1) = connect DB w
      in case cur_execute P (SelectMaxId ''Drinks'') conn w1 of
           (Inl e, w2) \<Rightarrow> (Inl e, w2)
         | (Inr (conn', res), w2) \<Rightarrow>
             (case fetchone0 res of
                Inl e \<Rightarrow> (Inl e, w2)
              | Inr max_id \<Rightarrow>
                  (case next_id P max_id of
                     Inl e \<Rightarrow> (Inl e, close w2)
                   | Inr drink_id \<Rightarrow>
                       then_do (input ''Enter drink name, e.g. Negroni, Gin & Tonic, Sangria: '')
                         (\<lambda>name.
                       then_do (input ''If you wish, enter a description here: '')
                         (\<lambda>description.
                       then_do (input ''How is the drink is prepared, e.g. Shaken, Stirred: '')
                         (\<lambda>method.
                       then_do (input ''If appropriate, enter a garnish here: '')
                         (\<lambda>garnish.
                       return [drink_id, VStr name, VStr description, VStr method,
                               VStr garnish]))))
                         (close w2))))"

definition ask_abv :: "platform \<Rightarrow> world \<Rightarrow> (error + pyfloat) \<times> world" where
  "ask_abv P w = get_float P ''Enter the ABV: '' w"

definition Ingredient_create :: "platform \<Rightarrow> world \<Rightarrow> (error + pyvalue list) \<times> world" where
  "Ingredient_create P w =
     (let (conn, w1) = connect DB w
      in case cur_execute P (SelectMaxId ''Ingredients'') conn w1 of
           (Inl e, w2) \<Rightarrow> (Inl e, w2)
         | (Inr (conn', res), w2) \<Rightarrow>
             (case fetchone0 res of
                Inl e \<Rightarrow> (Inl e, w2)
              | Inr max_id \<Rightarrow>
                  (case next_id P max_id of
                     Inl e \<Rightarrow> (Inl e, close w2)
                   | Inr ingredient_id \<Rightarrow>
                       then_do (input ''Enter the category, e.g. Beer, Wine, Spirit: '')
                         (\<lambda>category.
                       then_do (input ''Enter the type of ingredient, e.g. Ale, White wine, Whiskey: '')
                         (\<lambda>group.
                       then_do (input ''Enter product name, e.g. Neck Oil, Gran Reserva, Green Label: '')
                         (\<lambda>name.
                       then_do (input ''Enter the brand name, e.g. Beavertown, Luis Felipe Edwards, Johnny Walker: '')
                         (\<lambda>brand.
                       then_do (input ''If you wish, enter a description here: '')
                         (\<lambda>description.
                       then_do (input ''What units is the ingredient measured in, e.g. ml, dashes? '')
                         (\<lambda>measure.
                       then_do (ask_abv P)
                         (\<lambda>abv.
                       return [ingredient_id, VStr category, VStr group, VStr name, VStr brand,
                               VStr description, VStr measure, VFloat abv])))))))
                         (close w2))))"

subsection \<open>The main program\<close>

definition main :: "platform \<Rightarrow> world \<Rightarrow> (error + unit) \<times> world" where
  "main P =
     then_do (create_table P DB ''Drinks''
                [''id INTEGER'', ''drink_name TEXT'', ''drink_description TEXT'',
                 ''drink_method TEXT'', ''drink_garnish TEXT''])
       (\<lambda>_.
     then_do (create_table P DB ''Ingredients''
                [''id INTEGER'', ''ingredient_category TEXT'', ''ingredient_group TEXT'',
                 ''ingredient_name TEXT'', ''ingredient_brand TEXT'',
                 ''ingredient_description TEXT'', ''ingredient_measure TEXT'',
                 ''ingredient_abv REAL''])
       (\<lambda>_.
     then_do (create_table P DB ''DrinkRecipes''
                [''id INTEGER'', ''drink_id INTEGER'', ''ingredient_id INTEGER'',
                 ''ingredient_volume REAL''])
       (\<lambda>_.
     then_do (ask_and_insert_entry P ''Drinks'' (Drink_create P))
       (\<lambda>_.
     then_do (ask_and_insert_entry P ''Ingredients'' (Ingredient_create P))
       (\<lambda>_.
     then_do (view_table P ''Drinks'')
       (\<lambda>_.
     then_do (view_table P ''Ingredients'')
       (\<lambda>_. view_table P ''DrinkRecipes'')))))))"

section \<open>Notions used in the properties\<close>

text \<open>
  A statement succeeds for the access that runs it when it does not raise and gives
  the answer the access goes on to read before it closes the connection: a first row
  for the count and for the maximum, a description of the columns for the listing. A
  statement of the modelled fragment that does not raise gives that answer.
\<close>

fun readable :: "stmt \<Rightarrow> result \<Rightarrow> bool" where
  "readable (SelectCountWhere name conds) res =
     (case fetchone0 res of Inl e \<Rightarrow> False | Inr v \<Rightarrow> True)"
| "readable (SelectMaxId name) res = (case fetchone0 res of Inl e \<Rightarrow> False | Inr v \<Rightarrow> True)"
| "readable (SelectAll name) res = (description res \<noteq> None)"
| "readable s res = True"

definition succeeds :: "platform \<Rightarrow> stmt \<Rightarrow> database \<Rightarrow> bool" where
  "succeeds P s d =
     (case execute P s d of Inl e \<Rightarrow> False | Inr (d', res) \<Rightarrow> readable s res)"

text \<open>
  What one store access adds to the log: the connection, the statement, and, when the
  statement has succeeded, the commit of a mutating access and the close.
\<close>

definition access_log :: "string \<Rightarrow> stmt \<Rightarrow> bool \<Rightarrow> bool \<Rightarrow> event list" where
  "access_log db_name s mutating ok =
     [Connect db_name, Execute s] @
     (if ok then (if mutating then [Commit] else []) @ [Close] else [])"

text \<open>
  A value that the store keeps as it is in a column of the given affinity: binding
  does not change it and the affinity keeps its storage class.
\<close>

definition stored_unchanged :: "affinity \<Rightarrow> pyvalue \<Rightarrow> bool" where
  "stored_unchanged a v = (bind v = Inr v \<and> keeps a v)"

text \<open>
  One database against an earlier one: every table of the earlier one is still there
  with the same columns and rows, or exactly one row has been added at the end of one
  table and nothing else has changed.
\<close>

definition append_only :: "database \<Rightarrow> database \<Rightarrow> bool" where
  "append_only d d' =
     ((\<forall>k t. d k = Some t \<longrightarrow> d' k = Some t)
      \<or> (\<exists>k t r. d k = Some t \<and> d' = d(k \<mapsto> t\<lparr>rows := rows t @ [r]\<rparr>)))"

section \<open>Example environment\<close>

text \<open>
  A platform for evaluating the examples. Its \<open>float\<close> reads integer literals of up to
  53 bits, which is exact; no example reaches the other four functions.
\<close>

definition example_platform :: platform where
  "example_platform =
     \<lparr>convert = (\<lambda>a v. v),
      float_of_str = (\<lambda>s. case py_int s of
                          Some i \<Rightarrow> if \<bar>i\<bar> \<le> 2 ^ 53 then Some (Finite (of_int i)) else None
                        | None \<Rightarrow> None),
      float_succ = (\<lambda>f. f),
      str_of_float = (\<lambda>f. []),
      beyond = (\<lambda>s d. Inl ProgrammingError)\<rparr>"

definition console :: "string list \<Rightarrow> world" where
  "console lines = \<lparr>stdin = lines, stdout = [], files = (\<lambda>f. Map.empty), log = []\<rparr>"

text \<open>
  A store as the program leaves it after some runs: two drinks, one ingredient with
  identifier 3, no recipe.
\<close>

definition example_drinks :: table where
  "example_drinks =
     \<lparr>columns = [(''id'', ''INTEGER''), (''drink_name'', ''TEXT''),
                 (''drink_description'', ''TEXT''), (''drink_method'', ''TEXT''),
                 (''drink_garnish'', ''TEXT'')],
      rows = [[VInt 1, VStr ''Negroni'', VStr ''Classic'', VStr ''Stirred'',
               VStr ''Orange peel''],
              [VInt 2, VStr ''Sangria'', VStr [], VStr ''Built'', VStr ''Fruit'']]\<rparr>"

definition example_ingredients :: table where
  "example_ingredients =
     \<lparr>columns = [(''id'', ''INTEGER''), (''ingredient_category'', ''TEXT''),
                 (''ingredient_group'', ''TEXT''), (''ingredient_name'', ''TEXT''),
                 (''ingredient_brand'', ''TEXT''), (''ingredient_description'', ''TEXT''),
                 (''ingredient_measure'', ''TEXT''), (''ingredient_abv'', ''REAL'')],
      rows = [[VInt 3, VStr ''Spirit'', VStr ''Gin'', VStr ''Dry'', VStr ''Acme'',
               VStr [], VStr ''ml'', VFloat (Finite 40)]]\<rparr>"

definition example_db :: database where
  "example_db =
     [''drinks'' \<mapsto> example_drinks,
      ''ingredients'' \<mapsto> example_ingredients,
      ''drinkrecipes'' \<mapsto>
        \<lparr>columns = [(''id'', ''INTEGER''), (''drink_id'', ''INTEGER''),
                    (''ingredient_id'', ''INTEGER''), (''ingredient_volume'', ''REAL'')],
         rows = []\<rparr>]"

definition example_world :: "string list \<Rightarrow> world" where
  "example_world lines =
     \<lparr>stdin = lines, stdout = [], files = (\<lambda>f. if f = DB then example_db else Map.empty),
      log = []\<rparr>"

text \<open>The store right after the first start of the program: three empty tables.\<close>

definition fresh_world :: "string list \<Rightarrow> world" where
  "fresh_world lines =
     \<lparr>stdin = lines, stdout = [],
      files = (\<lambda>f. if f = DB
                 then [''drinks'' \<mapsto> example_drinks\<lparr>rows := []\<rparr>,
                       ''ingredients'' \<mapsto> example_ingredients\<lparr>rows := []\<rparr>,
                       ''drinkrecipes'' \<mapsto>
                         \<lparr>columns = [(''id'', ''INTEGER''), (''drink_id'', ''INTEGER''),
                                     (''ingredient_id'', ''INTEGER''),
                                     (''ingredient_volume'', ''REAL'')],
                          rows = []\<rparr>]
                 else Map.empty),
      log = []\<rparr>"

text \<open>A store whose only drink has the greatest identifier of 64 bits.\<close>

definition last_id_world :: "string list \<Rightarrow> world" where
  "last_id_world lines =
     \<lparr>stdin = lines, stdout = [],
      files = (\<lambda>f. if f = DB
                 then [''drinks'' \<mapsto> example_drinks\<lparr>rows :=
                         [[VInt (2 ^ 63 - 1), VStr ''Negroni'', VStr ''Classic'',
                           VStr ''Stirred'', VStr ''Orange peel'']]\<rparr>]
                 else Map.empty),
      log = []\<rparr>"

text \<open>
  An entry class whose \<open>create\<close> asks nothing and returns a record with the
  identifier 3.
\<close>

definition fixed_entry :: "world \<Rightarrow> (error + pyvalue list) \<times> world" where
  "fixed_entry =
     return [VInt 3, VStr ''Spirit'', VStr ''Rum'', VStr ''Dark'', VStr ''Acme'', VStr [],
             VStr ''ml'', VFloat (Finite 37)]"

section \<open>The validated input readers: properties\<close>

declare get_int.simps [simp del] get_str.simps [simp del] get_float.simps [simp del]

lemma py_int_abc: "py_int ''abc'' = None"
  by (simp add: py_int_def py_strip_def int_space_def code_def is_digit_def)

lemma py_int_12_5: "py_int ''12.5'' = None"
  by (simp add: py_int_def py_strip_def int_space_def code_def is_digit_def)

lemma py_int_7: "py_int ''7'' = Some 7"
  by (simp add: py_int_def py_strip_def int_space_def code_def is_digit_def
      digits_value_def digit_val_def)

text \<open>
  Claim C6. When some line of the input parses as an integer, \<open>get_int\<close> returns the value
  of the first such line; for each earlier line it has written the prompt and the error
  message, and it leaves the lines after the accepted one unread. On the lines
  \<open>abc\<close>, \<open>12.5\<close>, \<open>7\<close> it rejects two lines and returns 7 (the witness).
\<close>

theorem get_int_first:
  assumes "stdin w = pre @ l # rest"
    and "\<forall>x\<in>set pre. py_int x = None"
    and "py_int l = Some n"
  shows "get_int p w = (Inr n, w\<lparr>stdin := rest,
      stdout := stdout w @ concat (map (\<lambda>x. [p, ''<<< Please enter whole numbers only >>>'']) pre) @ [p]\<rparr>)"
  using assms
proof (induction pre arbitrary: w)
  case Nil
  then show ?case by (simp add: get_int.simps [of p w] input_def)
next
  case (Cons x xs)
  let ?w = "print ''<<< Please enter whole numbers only >>>''
              (w\<lparr>stdout := stdout w @ [p], stdin := xs @ l # rest\<rparr>)"
  have "get_int p w = get_int p ?w"
    using Cons.prems by (simp add: get_int.simps [of p w] input_def)
  also have "\<dots> = (Inr n, ?w\<lparr>stdin := rest,
      stdout := stdout ?w @ concat (map (\<lambda>x. [p, ''<<< Please enter whole numbers only >>>'']) xs) @ [p]\<rparr>)"
    using Cons.prems by (intro Cons.IH) (simp_all add: print_def)
  finally show ?case by (simp add: print_def)
qed

theorem get_int_first_witness:
  "py_int ''abc'' = None \<and> py_int ''12.5'' = None \<and> py_int ''7'' = Some 7 \<and>
   get_int ''Enter a number: '' (console [''abc'', ''12.5'', ''7''])
   = (Inr 7, \<lparr>stdin = [],
        stdout = [''Enter a number: '', ''<<< Please enter whole numbers only >>>'',
                  ''Enter a number: '', ''<<< Please enter whole numbers only >>>'',
                  ''Enter a number: ''],
        files = (\<lambda>f. Map.empty), log = []\<rparr>)"
  using get_int_first [of "console [''abc'', ''12.5'', ''7'']"
      "[''abc'', ''12.5'']" "''7''" "[]" 7 "''Enter a number: ''"]
  by (simp add: py_int_abc py_int_12_5 py_int_7 console_def)

lemma get_str_result:
  "get_str p w = (Inr v, w') \<Longrightarrow> py_isalpha v"
proof (induction p w rule: get_str.induct)
  case (1 p w)
  show ?case
  proof (cases "stdin w")
    case Nil
    with "1.prems" show ?thesis by (simp add: get_str.simps [of p w] input_def)
  next
    case (Cons l ls)
    show ?thesis
    proof (cases "py_isalpha l")
      case True
      with Cons "1.prems" show ?thesis by (simp add: get_str.simps [of p w] input_def)
    next
      case False
      with Cons "1.prems" "1.IH" show ?thesis
        by (simp add: get_str.simps [of p w] input_def)
    qed
  qed
qed

text \<open>
  Claim C7. Reading past lines that each contain a character that is no letter (a digit,
  a space, punctuation), \<open>get_str\<close> returns the first line that is made of letters
  only, at least one; each earlier line is answered by the prompt and the error message.
  On the lines \<open>John3\<close>, \<open>Ann Smith\<close>, \<open>John\<close> it rejects two lines and returns
  \<open>John\<close> (the witness).
\<close>

theorem get_str_first:
  assumes "stdin w = pre @ l # rest"
    and "\<forall>x\<in>set pre. \<exists>c\<in>set x. \<not> is_letter c"
    and "l \<noteq> []" and "\<forall>c\<in>set l. is_letter c"
  shows "get_str p w = (Inr l, w\<lparr>stdin := rest,
      stdout := stdout w @ concat (map (\<lambda>x. [p, ''<<< Please enter letters only >>>'']) pre) @ [p]\<rparr>)"
  using assms
proof (induction pre arbitrary: w)
  case Nil
  then show ?case by (simp add: get_str.simps [of p w] input_def py_isalpha_def list_all_iff)
next
  case (Cons x xs)
  let ?w = "print ''<<< Please enter letters only >>>''
              (w\<lparr>stdout := stdout w @ [p], stdin := xs @ l # rest\<rparr>)"
  have "\<not> py_isalpha x" using Cons.prems(2) by (auto simp: py_isalpha_def list_all_iff)
  then have "get_str p w = get_str p ?w"
    using Cons.prems by (simp add: get_str.simps [of p w] input_def)
  also have "\<dots> = (Inr l, ?w\<lparr>stdin := rest,
      stdout := stdout ?w @ concat (map (\<lambda>x. [p, ''<<< Please enter letters only >>>'']) xs) @ [p]\<rparr>)"
    using Cons.prems by (intro Cons.IH) (simp_all add: print_def)
  finally show ?case by (simp add: print_def)
qed

theorem get_str_first_witness:
  "(\<exists>c\<in>set ''John3''. \<not> is_letter c) \<and> (\<exists>c\<in>set ''Ann Smith''. \<not> is_letter c)
   \<and> list_all is_letter ''John'' \<and>
   get_str ''Name: '' (console [''John3'', ''Ann Smith'', ''John''])
   = (Inr ''John'', \<lparr>stdin = [],
        stdout = [''Name: '', ''<<< Please enter letters only >>>'',
                  ''Name: '', ''<<< Please enter letters only >>>'', ''Name: ''],
        files = (\<lambda>f. Map.empty), log = []\<rparr>)"
  using get_str_first [of "console [''John3'', ''Ann Smith'', ''John'']"
      "[''John3'', ''Ann Smith'']" "''John''" "[]" "''Name: ''"]
  by (simp add: is_letter_def code_def console_def)

text \<open>
  Claim C10. \<open>get_str\<close> never returns the empty string: an empty line is answered by
  the error message and the next prompt, as any rejected line, and whatever \<open>get_str\<close>
  returns is non-empty and made of letters only.
\<close>

theorem get_str_nonempty:
  "(stdin w = [] # rest \<longrightarrow>
      get_str p w = get_str p (w\<lparr>stdin := rest,
         stdout := stdout w @ [p, ''<<< Please enter letters only >>>'']\<rparr>))
   \<and> (get_str p w = (Inr v, w') \<longrightarrow> v \<noteq> [] \<and> (\<forall>c\<in>set v. is_letter c))"
proof (intro conjI impI)
  assume "stdin w = [] # rest"
  then show "get_str p w = get_str p (w\<lparr>stdin := rest,
         stdout := stdout w @ [p, ''<<< Please enter letters only >>>'']\<rparr>)"
    by (simp add: get_str.simps [of p w] input_def py_isalpha_def print_def)
next
  assume "get_str p w = (Inr v, w')"
  then have "py_isalpha v" by (rule get_str_result)
  then show "v \<noteq> []" and "\<forall>c\<in>set v. is_letter c"
    by (simp_all add: py_isalpha_def list_all_iff)
qed

theorem get_str_nonempty_witness:
  "get_str ''Name: '' (console ['''', ''John''])
     = get_str ''Name: '' ((console ['''', ''John''])\<lparr>stdin := [''John''],
         stdout := [''Name: '', ''<<< Please enter letters only >>>'']\<rparr>)
   \<and> get_str ''Name: '' (console ['''', ''John''])
     = (Inr ''John'', (console ['''', ''John''])\<lparr>stdin := [],
         stdout := [''Name: '', ''<<< Please enter letters only >>>'', ''Name: '']\<rparr>)
   \<and> ''John'' \<noteq> [] \<and> list_all is_letter ''John''"
proof -
  have run: "get_str ''Name: '' (console ['''', ''John''])
     = (Inr ''John'', (console ['''', ''John''])\<lparr>stdin := [],
         stdout := [''Name: '', ''<<< Please enter letters only >>>'', ''Name: '']\<rparr>)"
    by (simp add: get_str.simps input_def print_def py_isalpha_def is_letter_def code_def
        console_def)
  from get_str_nonempty [of "console ['''', ''John'']" "[''John'']" "''Name: ''" "''John''"
      "(console ['''', ''John''])\<lparr>stdin := [],
         stdout := [''Name: '', ''<<< Please enter letters only >>>'', ''Name: '']\<rparr>"] run
  show ?thesis by (simp add: console_def)
qed

section \<open>Facts about the example store\<close>

lemma execute_modelled: "modelled s d \<Longrightarrow> execute P s d = answer P s d"
  by (simp add: execute_def)

lemma plain_examples:
  "plain_name ''Drinks''" "plain_name ''Ingredients''" "plain_name ''id''"
  by code_simp+

lemma lower_examples:
  "sql_lower ''Ingredients'' = ''ingredients''" "sql_lower ''Drinks'' = ''drinks''"
  by code_simp+

lemma affinity_examples:
  "affinity_of ''INTEGER'' = INTEGER" "affinity_of ''TEXT'' = TEXT" "affinity_of ''REAL'' = REAL"
  by code_simp+

lemma example_tables:
  "files (example_world ls) DB (sql_lower ''Ingredients'') = Some example_ingredients"
  "files (example_world ls) DB (sql_lower ''Drinks'') = Some example_drinks"
  by (simp_all add: example_world_def example_db_def lower_examples)

lemma example_id_column:
  "find_column (columns example_ingredients) ''id'' = Some (0, INTEGER)"
  "find_column (columns example_drinks) ''id'' = Some (0, INTEGER)"
  by (simp_all add: example_ingredients_def example_drinks_def affinity_examples)

lemma example_plain_columns:
  "plain_columns (columns example_ingredients)" "plain_columns (columns example_drinks)"
  unfolding example_ingredients_def example_drinks_def by code_simp+

section \<open>Store accesses\<close>

lemma print_keeps:
  "log (print l w) = log w" "files (print l w) = files w" "stdin (print l w) = stdin w"
  "stdout (print l w) = stdout w @ [l]"
  by (simp_all add: print_def)

lemma input_keeps: "log (snd (input p v)) = log v \<and> files (snd (input p v)) = files v"
  by (simp add: input_def Let_def split: list.splits)

lemma get_float_keeps:
  "log (snd (get_float P p w)) = log w \<and> files (snd (get_float P p w)) = files w"
proof (induction P p w rule: get_float.induct)
  case (1 P p w)
  show ?case
  proof (cases "stdin w")
    case Nil
    then show ?thesis by (simp add: get_float.simps [of P p w] input_def)
  next
    case (Cons l ls)
    show ?thesis
    proof (cases "float_of_str P l")
      case None
      with Cons "1.IH" show ?thesis
        by (simp add: get_float.simps [of P p w] input_def print_def)
    next
      case (Some x)
      with Cons show ?thesis by (simp add: get_float.simps [of P p w] input_def)
    qed
  qed
qed

lemma then_do_keeps:
  assumes "\<And>v. log (snd (f v)) = log v \<and> files (snd (f v)) = files v"
    and "\<And>x v. log (snd (g x v)) = log v \<and> files (snd (g x v)) = files v"
  shows "log (snd (then_do f g w)) = log w \<and> files (snd (then_do f g w)) = files w"
proof (cases "f w")
  case (Pair r w1)
  with assms(1) [of w] have k: "log w1 = log w" "files w1 = files w" by simp_all
  show ?thesis
  proof (cases r)
    case (Inl e)
    with Pair k show ?thesis by (simp add: then_do_def)
  next
    case (Inr x)
    with Pair k assms(2) [of x w1] show ?thesis by (simp add: then_do_def)
  qed
qed

lemma return_keeps: "log (snd (return x v)) = log v \<and> files (snd (return x v)) = files v"
  by (simp add: return_def)

lemma ask_abv_keeps: "log (snd (ask_abv P v)) = log v \<and> files (snd (ask_abv P v)) = files v"
  by (simp add: ask_abv_def get_float_keeps)

lemma create_table_unfold:
  "create_table P db tbl cols w =
     (case execute P (CreateTableIfNotExists tbl cols) (files w db) of
        Inl e \<Rightarrow> (Inl e, w\<lparr>log := log w @ [Connect db, Execute (CreateTableIfNotExists tbl cols)]\<rparr>)
      | Inr (d, res) \<Rightarrow> (Inr (), w\<lparr>files := (files w)(db := d),
            log := log w @ [Connect db, Execute (CreateTableIfNotExists tbl cols), Commit, Close]\<rparr>))"
  by (simp add: create_table_def connect_def cur_execute_def commit_def close_def
      split: sum.splits prod.splits)

lemma insert_into_table_unfold:
  "insert_into_table P db tbl vals w =
     (case execute P (InsertValues tbl vals) (files w db) of
        Inl e \<Rightarrow> (Inl e, w\<lparr>log := log w @ [Connect db, Execute (InsertValues tbl vals)]\<rparr>)
      | Inr (d, res) \<Rightarrow> (Inr (), w\<lparr>files := (files w)(db := d),
            log := log w @ [Connect db, Execute (InsertValues tbl vals), Commit, Close]\<rparr>))"
  by (simp add: insert_into_table_def connect_def cur_execute_def commit_def close_def
      split: sum.splits prod.splits)

lemma entry_already_exists_unfold:
  "entry_already_exists P tbl kw w =
     (case execute P (SelectCountWhere tbl kw) (files w DB) of
        Inl e \<Rightarrow> (Inl e, w\<lparr>log := log w @ [Connect DB, Execute (SelectCountWhere tbl kw)]\<rparr>)
      | Inr (d, res) \<Rightarrow>
          (case fetchone0 res of
             Inl e \<Rightarrow>
               (Inl e, w\<lparr>log := log w @ [Connect DB, Execute (SelectCountWhere tbl kw)]\<rparr>)
           | Inr v \<Rightarrow>
               (case py_gt0 v of Inl e \<Rightarrow> Inl e | Inr b \<Rightarrow> Inr b,
                w\<lparr>log := log w @ [Connect DB, Execute (SelectCountWhere tbl kw), Close]\<rparr>)))"
  by (simp add: entry_already_exists_def connect_def cur_execute_def close_def
      split: sum.splits prod.splits)

lemma answer_count:
  "answer P (SelectCountWhere tbl kw) d = Inr (d', res) \<Longrightarrow> d' = d \<and> (\<exists>n. res = Count n)"
  by (auto split: if_splits option.splits sum.splits)

lemma answer_all:
  "answer P (SelectAll tbl) d = Inr (d', res) \<Longrightarrow> d' = d \<and> (\<exists>cs rs. res = Rows cs rs)"
  by (auto split: if_splits option.splits)

lemma answer_max:
  "answer P (SelectMaxId tbl) d = Inr (d', res) \<Longrightarrow> d' = d \<and> (\<exists>v. res = Scalar v)"
  by (auto split: if_splits option.splits)

text \<open>A statement of the fragment that does not raise gives the answer its access reads.\<close>

lemma answer_readable: "answer P s d = Inr (d', res) \<Longrightarrow> readable s res"
proof (cases s)
  case (SelectCountWhere tbl kw)
  assume "answer P s d = Inr (d', res)"
  with SelectCountWhere answer_count [of P tbl kw d d' res] show ?thesis by auto
next
  case (SelectAll tbl)
  assume "answer P s d = Inr (d', res)"
  with SelectAll answer_all [of P tbl d d' res] show ?thesis by auto
next
  case (SelectMaxId tbl)
  assume "answer P s d = Inr (d', res)"
  with SelectMaxId answer_max [of P tbl d d' res] show ?thesis by auto
qed simp_all

lemma succeeds_modelled:
  "modelled s d \<Longrightarrow> succeeds P s d = (case answer P s d of Inl e \<Rightarrow> False | Inr x \<Rightarrow> True)"
  using answer_readable [of P s d]
  by (auto simp: succeeds_def execute_modelled split: sum.splits)

subsection \<open>Schema\<close>

lemma answer_create:
  assumes "column_defs cols = Some cs" and "cs \<noteq> []"
    and "distinct (map (sql_lower \<circ> fst) cs)" and "length cs \<le> 2000"
  shows "answer P (CreateTableIfNotExists tbl cols) d =
     Inr (case d (sql_lower tbl) of
            Some t \<Rightarrow> d
          | None \<Rightarrow> d(sql_lower tbl \<mapsto> \<lparr>columns = cs, rows = []\<rparr>), NoResult)"
  using assms by (cases cols) (auto split: option.splits)

lemma answer_create_again:
  assumes "column_defs cols = Some cs" and "cs \<noteq> []"
    and "distinct (map (sql_lower \<circ> fst) cs)" and "length cs \<le> 2000"
    and "d' = (case d (sql_lower tbl) of
                 Some t \<Rightarrow> d
               | None \<Rightarrow> d(sql_lower tbl \<mapsto> \<lparr>columns = cs, rows = []\<rparr>))"
  shows "answer P (CreateTableIfNotExists tbl cols) d' = Inr (d', NoResult)"
  using assms(5) answer_create [OF assms(1-4), of P tbl d']
  by (auto split: option.splits)

text \<open>
  Claim C5, amended. For a table name that is a plain name and a non-empty list of at
  most 2000 plain column definitions with distinct names and a small text, two calls of
  \<open>create_table\<close> in a row with the same arguments give no error: the first leaves the table in the
  database, as it was or new and without rows, and nothing else changed; the second
  leaves every database file, schema and rows, exactly as the first left them. A
  database maps a table name to one table, so there is no second table of that name.
  (Without columns both calls raise, which is why the claim does not hold of every
  column list.)
\<close>

theorem create_table_twice:
  assumes "plain_name tbl" and "column_defs cols = Some cs" and "cs \<noteq> []"
    and "distinct (map (sql_lower \<circ> fst) cs)" and "length cs \<le> 2000"
    and "small_texts cols"
  shows "\<exists>w1 w2. create_table P db_name tbl cols w = (Inr (), w1)
           \<and> files w1 db_name (sql_lower tbl) =
               Some (case files w db_name (sql_lower tbl) of
                       Some t \<Rightarrow> t
                     | None \<Rightarrow> \<lparr>columns = cs, rows = []\<rparr>)
           \<and> (\<forall>f k. (f, k) \<noteq> (db_name, sql_lower tbl) \<longrightarrow> files w1 f k = files w f k)
           \<and> create_table P db_name tbl cols w1 = (Inr (), w2)
           \<and> files w2 = files w1 \<and> stdin w2 = stdin w \<and> stdout w2 = stdout w"
proof -
  let ?s = "CreateTableIfNotExists tbl cols"
  let ?d = "files w db_name"
  let ?d' = "case ?d (sql_lower tbl) of
               Some t \<Rightarrow> ?d
             | None \<Rightarrow> ?d(sql_lower tbl \<mapsto> \<lparr>columns = cs, rows = []\<rparr>)"
  let ?w1 = "w\<lparr>files := (files w)(db_name := ?d'),
      log := log w @ [Connect db_name, Execute ?s, Commit, Close]\<rparr>"
  let ?w2 = "?w1\<lparr>files := (files ?w1)(db_name := ?d'),
      log := log ?w1 @ [Connect db_name, Execute ?s, Commit, Close]\<rparr>"
  have m: "modelled ?s d" for d using assms(1,2,6) by simp
  have 1: "create_table P db_name tbl cols w = (Inr (), ?w1)"
    using answer_create [OF assms(2-5), of P tbl ?d]
    by (simp add: create_table_unfold execute_modelled [OF m] del: answer.simps)
  have "answer P ?s ?d' = Inr (?d', NoResult)"
    by (rule answer_create_again [OF assms(2-5)]) simp
  then have 2: "create_table P db_name tbl cols ?w1 = (Inr (), ?w2)"
    by (simp add: create_table_unfold execute_modelled [OF m] del: answer.simps)
  have 3: "files ?w1 db_name (sql_lower tbl) =
      Some (case ?d (sql_lower tbl) of Some t \<Rightarrow> t | None \<Rightarrow> \<lparr>columns = cs, rows = []\<rparr>)"
    by (simp split: option.splits)
  have 4: "\<forall>f k. (f, k) \<noteq> (db_name, sql_lower tbl) \<longrightarrow> files ?w1 f k = files w f k"
    by (auto split: option.splits)
  have 5: "files ?w2 = files ?w1" by simp
  from 1 2 3 4 5 show ?thesis
    by (intro exI [of _ ?w1] exI [of _ ?w2]) simp
qed

theorem create_table_twice_witness:
  "\<exists>w1 w2. create_table example_platform DB ''Drinks''
               [''id INTEGER'', ''drink_name TEXT'', ''drink_description TEXT'',
                ''drink_method TEXT'', ''drink_garnish TEXT''] (console []) = (Inr (), w1)
     \<and> files w1 DB ''drinks'' = Some (example_drinks\<lparr>rows := []\<rparr>)
     \<and> create_table example_platform DB ''Drinks''
               [''id INTEGER'', ''drink_name TEXT'', ''drink_description TEXT'',
                ''drink_method TEXT'', ''drink_garnish TEXT''] w1 = (Inr (), w2)
     \<and> files w2 = files w1"
proof -
  have cd: "column_defs [''id INTEGER'', ''drink_name TEXT'', ''drink_description TEXT'',
                ''drink_method TEXT'', ''drink_garnish TEXT'']
      = Some (columns example_drinks)"
    unfolding example_drinks_def by code_simp
  have ds: "distinct (map (sql_lower \<circ> fst) (columns example_drinks))"
    unfolding example_drinks_def by code_simp
  have ne: "columns example_drinks \<noteq> []" "length (columns example_drinks) \<le> 2000"
    by (simp_all add: example_drinks_def)
  have st: "small_texts [''id INTEGER'', ''drink_name TEXT'', ''drink_description TEXT'',
                ''drink_method TEXT'', ''drink_garnish TEXT'']"
    by (simp add: small_texts_def)
  from create_table_twice [OF plain_examples(1) cd ne(1) ds ne(2) st, of example_platform DB
      "console []"]
  show ?thesis
    by (auto simp: console_def lower_examples example_drinks_def)
qed

text \<open>
  The claim C5 as stated fails: without column definitions the statement is malformed,
  and the first call and the second both raise.
\<close>

theorem create_table_without_columns:
  "fst (create_table example_platform DB ''Drinks'' [] (console [])) = Inl OperationalError
   \<and> fst (create_table example_platform DB ''Drinks'' []
            (snd (create_table example_platform DB ''Drinks'' [] (console []))))
       = Inl OperationalError"
  using plain_examples(1)
  by (simp add: create_table_unfold execute_def console_def small_texts_def)

subsection \<open>Connections\<close>

lemma view_table_unfold:
  "view_table P tbl w =
     (case execute P (SelectAll tbl) (files w DB) of
        Inl e \<Rightarrow> (Inl e, w\<lparr>log := log w @ [Connect DB, Execute (SelectAll tbl)]\<rparr>)
      | Inr (d, res) \<Rightarrow>
          (case description res of
             None \<Rightarrow> (Inl TypeError, w\<lparr>log := log w @ [Connect DB, Execute (SelectAll tbl)]\<rparr>)
           | Some col_names \<Rightarrow>
               (Inr (), w\<lparr>stdout := stdout w @ py_join [CHR 0x09] col_names
                     # map (\<lambda>r. py_join [CHR 0x09] (map (py_str P) r)) (fetchall res),
                   log := log w @ [Connect DB, Execute (SelectAll tbl), Close]\<rparr>)))"
proof -
  have pr: "foldl (\<lambda>v r. v\<lparr>stdout := stdout v @ [f r]\<rparr>) v rs
      = v\<lparr>stdout := stdout v @ map f rs\<rparr>"
    for f :: "row \<Rightarrow> string" and v :: world and rs
    by (induction rs arbitrary: v) simp_all
  show ?thesis
    by (simp add: view_table_def connect_def cur_execute_def close_def Let_def pr print_def
        split: sum.splits prod.splits option.splits)
qed

lemma view_table_log:
  "log (snd (view_table P tbl w)) =
     log w @ access_log DB (SelectAll tbl) False (succeeds P (SelectAll tbl) (files w DB))"
  by (simp add: view_table_unfold access_log_def succeeds_def
      split: sum.splits prod.splits option.splits)

lemma view_table_files: "files (snd (view_table P tbl w)) = files w"
  by (simp add: view_table_unfold split: sum.splits prod.splits option.splits)

lemma create_table_log:
  "log (snd (create_table P db tbl cols w)) =
     log w @ access_log db (CreateTableIfNotExists tbl cols) True
               (succeeds P (CreateTableIfNotExists tbl cols) (files w db))"
  by (simp add: create_table_unfold access_log_def succeeds_def split: sum.splits prod.splits)

lemma insert_into_table_log:
  "log (snd (insert_into_table P db tbl vals w)) =
     log w @ access_log db (InsertValues tbl vals) True
               (succeeds P (InsertValues tbl vals) (files w db))"
  by (simp add: insert_into_table_unfold access_log_def succeeds_def
      split: sum.splits prod.splits)

lemma entry_already_exists_log:
  "log (snd (entry_already_exists P tbl kw w)) =
     log w @ access_log DB (SelectCountWhere tbl kw) False
               (succeeds P (SelectCountWhere tbl kw) (files w DB))"
  by (simp add: entry_already_exists_unfold access_log_def succeeds_def
      split: sum.splits prod.splits)

lemma Drink_create_log:
  "log (snd (Drink_create P w)) =
     log w @ access_log DB (SelectMaxId ''Drinks'') False
               (succeeds P (SelectMaxId ''Drinks'') (files w DB))"
  and Drink_create_files: "files (snd (Drink_create P w)) = files w"
proof -
  have both: "log (snd (Drink_create P w)) =
     log w @ access_log DB (SelectMaxId ''Drinks'') False
               (succeeds P (SelectMaxId ''Drinks'') (files w DB))
     \<and> files (snd (Drink_create P w)) = files w"
  proof (cases "execute P (SelectMaxId ''Drinks'') (files w DB)")
    case (Inl e)
    then show ?thesis
      by (simp add: Drink_create_def connect_def cur_execute_def access_log_def succeeds_def)
  next
    case (Inr p)
    obtain d res where p: "p = (d, res)" by (cases p)
    show ?thesis
    proof (cases "fetchone0 res")
      case (Inl e)
      with Inr p show ?thesis
        by (simp add: Drink_create_def connect_def cur_execute_def access_log_def succeeds_def)
    next
      case r: (Inr v)
      show ?thesis
      proof (cases "next_id P v")
        case (Inl e)
        with Inr p r show ?thesis
          by (simp add: Drink_create_def connect_def cur_execute_def access_log_def succeeds_def
              close_def)
      next
        case i: (Inr n)
        with Inr p r show ?thesis
          by (simp add: Drink_create_def connect_def cur_execute_def access_log_def succeeds_def
              close_def then_do_keeps input_keeps return_keeps)
      qed
    qed
  qed
  from both show "log (snd (Drink_create P w)) =
     log w @ access_log DB (SelectMaxId ''Drinks'') False
               (succeeds P (SelectMaxId ''Drinks'') (files w DB))" by simp
  from both show "files (snd (Drink_create P w)) = files w" by simp
qed

lemma Ingredient_create_log:
  "log (snd (Ingredient_create P w)) =
     log w @ access_log DB (SelectMaxId ''Ingredients'') False
               (succeeds P (SelectMaxId ''Ingredients'') (files w DB))"
  and Ingredient_create_files: "files (snd (Ingredient_create P w)) = files w"
proof -
  have both: "log (snd (Ingredient_create P w)) =
     log w @ access_log DB (SelectMaxId ''Ingredients'') False
               (succeeds P (SelectMaxId ''Ingredients'') (files w DB))
     \<and> files (snd (Ingredient_create P w)) = files w"
  proof (cases "execute P (SelectMaxId ''Ingredients'') (files w DB)")
    case (Inl e)
    then show ?thesis
      by (simp add: Ingredient_create_def connect_def cur_execute_def access_log_def
          succeeds_def)
  next
    case (Inr p)
    obtain d res where p: "p = (d, res)" by (cases p)
    show ?thesis
    proof (cases "fetchone0 res")
      case (Inl e)
      with Inr p show ?thesis
        by (simp add: Ingredient_create_def connect_def cur_execute_def access_log_def
            succeeds_def)
    next
      case r: (Inr v)
      show ?thesis
      proof (cases "next_id P v")
        case (Inl e)
        with Inr p r show ?thesis
          by (simp add: Ingredient_create_def connect_def cur_execute_def access_log_def
              succeeds_def close_def)
      next
        case i: (Inr n)
        with Inr p r show ?thesis
          by (simp add: Ingredient_create_def connect_def cur_execute_def access_log_def
              succeeds_def close_def then_do_keeps input_keeps return_keeps ask_abv_keeps)
      qed
    qed
  qed
  from both show "log (snd (Ingredient_create P w)) =
     log w @ access_log DB (SelectMaxId ''Ingredients'') False
               (succeeds P (SelectMaxId ''Ingredients'') (files w DB))" by simp
  from both show "files (snd (Ingredient_create P w)) = files w" by simp
qed

text \<open>
  Claim C8, amended. Every store access opens one new connection and runs one
  statement on it; when the statement has succeeded, a mutating access commits, and the
  access closes the connection. When the statement raises, the access ends there:
  neither commit nor close follows (the claim says the connection is closed on that
  path as well).
\<close>

theorem store_access_log:
  "log (snd (create_table P db_name tbl cols w)) =
     log w @ access_log db_name (CreateTableIfNotExists tbl cols) True
               (succeeds P (CreateTableIfNotExists tbl cols) (files w db_name))
   \<and> log (snd (insert_into_table P db_name tbl vals w)) =
     log w @ access_log db_name (InsertValues tbl vals) True
               (succeeds P (InsertValues tbl vals) (files w db_name))
   \<and> log (snd (entry_already_exists P tbl kwargs w)) =
     log w @ access_log DB (SelectCountWhere tbl kwargs) False
               (succeeds P (SelectCountWhere tbl kwargs) (files w DB))
   \<and> log (snd (view_table P tbl w)) =
     log w @ access_log DB (SelectAll tbl) False (succeeds P (SelectAll tbl) (files w DB))
   \<and> log (snd (Drink_create P w)) =
     log w @ access_log DB (SelectMaxId ''Drinks'') False
               (succeeds P (SelectMaxId ''Drinks'') (files w DB))
   \<and> log (snd (Ingredient_create P w)) =
     log w @ access_log DB (SelectMaxId ''Ingredients'') False
               (succeeds P (SelectMaxId ''Ingredients'') (files w DB))"
  by (simp only: create_table_log insert_into_table_log entry_already_exists_log
      view_table_log Drink_create_log Ingredient_create_log simp_thms)

text \<open>
  The claim C8 as stated fails: \<open>create_table\<close> without columns and
  \<open>entry_already_exists\<close> on a missing table raise, and each leaves its connection open.
\<close>

theorem connection_left_open:
  "fst (create_table example_platform DB ''Drinks'' [] (console [])) = Inl OperationalError
   \<and> open_connections (log (snd (create_table example_platform DB ''Drinks'' [] (console [])))) = 1
   \<and> fst (entry_already_exists example_platform ''Drinks'' [(''id'', VInt 1)] (console []))
       = Inl OperationalError
   \<and> open_connections (log (snd (entry_already_exists example_platform ''Drinks''
         [(''id'', VInt 1)] (console [])))) = 1"
  using plain_examples
  by (simp add: create_table_unfold entry_already_exists_unfold execute_def console_def
      small_texts_def open_connections_def small_values_def)

subsection \<open>The entry builders\<close>

lemma foldl_max_step_ints:
  "foldl max_step (VInt m) (map VInt ns) = VInt (Max (insert m (set ns)))"
proof (induction ns arbitrary: m)
  case Nil
  show ?case by simp
next
  case (Cons n ns)
  have "max_step (VInt m) (VInt n) = VInt (max m n)"
    by (simp add: max_step_def max_def)
  then have "foldl max_step (VInt m) (map VInt (n # ns)) = VInt (Max (insert (max m n) (set ns)))"
    by (simp add: Cons.IH)
  also have "Max (insert (max m n) (set ns)) = Max (insert m (set (n # ns)))"
    by (cases "ns = []") (simp_all add: max.assoc)
  finally show ?case .
qed

lemma sql_max_ints:
  "sql_max (map VInt ns) = (if ns = [] then VNone else VInt (Max (set ns)))"
proof (cases ns)
  case Nil
  then show ?thesis by (simp add: sql_max_def)
next
  case (Cons n ms)
  have "sql_max (map VInt (n # ms)) = foldl max_step (VInt n) (map VInt ms)"
    by (simp add: sql_max_def max_step_def)
  with Cons show ?thesis by (simp add: foldl_max_step_ints)
qed

lemma next_id_ints:
  "next_id P (sql_max (map VInt ns)) = Inr (VInt (if ns = [] then 1 else Max (set ns) + 1))"
  by (simp add: sql_max_ints)

lemma input_line:
  "stdin w = l # ls \<Longrightarrow> input p w = (Inr l, w\<lparr>stdout := stdout w @ [p], stdin := ls\<rparr>)"
  by (simp add: input_def)

lemma then_do_input:
  "stdin w = l # ls \<Longrightarrow>
     then_do (input p) g w = g l (w\<lparr>stdout := stdout w @ [p], stdin := ls\<rparr>)"
  by (simp add: then_do_def input_line)

lemma Drink_create_id:
  assumes "files w DB ''drinks'' = Some t"
    and "find_column (columns t) ''id'' = Some (i, a)"
    and "map (\<lambda>r. cell r i) (rows t) = map VInt ns"
    and "stdin w = name # descr # prep # garnish # rest"
  shows "Drink_create P w =
     (Inr [VInt (if rows t = [] then 1 else Max (set ns) + 1), VStr name, VStr descr,
           VStr prep, VStr garnish],
      w\<lparr>stdin := rest,
        stdout := stdout w @
          [''Enter drink name, e.g. Negroni, Gin & Tonic, Sangria: '',
           ''If you wish, enter a description here: '',
           ''How is the drink is prepared, e.g. Shaken, Stirred: '',
           ''If appropriate, enter a garnish here: ''],
        log := log w @ [Connect DB, Execute (SelectMaxId ''Drinks''), Close]\<rparr>)"
proof -
  have e: "ns = [] \<longleftrightarrow> rows t = []" using assms(3) by (metis map_is_Nil_conv)
  have x: "execute P (SelectMaxId ''Drinks'') (files w DB) =
      Inr (files w DB, Scalar (sql_max (map VInt ns)))"
    using assms(1-3) plain_examples by (simp add: execute_def lower_examples)
  show ?thesis
    using assms(4) e
    by (simp add: Drink_create_def connect_def cur_execute_def x next_id_ints close_def
        then_do_input return_def)
qed

lemma world_update_order:
  "w\<lparr>log := L, stdout := out, stdin := ins\<rparr> = w\<lparr>stdin := ins, stdout := out, log := L\<rparr>"
  by simp

lemma Ingredient_create_id:
  assumes "files w DB ''ingredients'' = Some t"
    and "find_column (columns t) ''id'' = Some (i, a)"
    and "map (\<lambda>r. cell r i) (rows t) = map VInt ns"
    and "stdin w = category # grp # name # brand # descr # meas # rest"
    and "ask_abv P (w\<lparr>stdin := rest,
        stdout := stdout w @
          [''Enter the category, e.g. Beer, Wine, Spirit: '',
           ''Enter the type of ingredient, e.g. Ale, White wine, Whiskey: '',
           ''Enter product name, e.g. Neck Oil, Gran Reserva, Green Label: '',
           ''Enter the brand name, e.g. Beavertown, Luis Felipe Edwards, Johnny Walker: '',
           ''If you wish, enter a description here: '',
           ''What units is the ingredient measured in, e.g. ml, dashes? ''],
        log := log w @ [Connect DB, Execute (SelectMaxId ''Ingredients''), Close]\<rparr>)
      = (Inr abv, w')"
  shows "Ingredient_create P w =
     (Inr [VInt (if rows t = [] then 1 else Max (set ns) + 1), VStr category, VStr grp,
           VStr name, VStr brand, VStr descr, VStr meas, VFloat abv], w')"
proof -
  have e: "ns = [] \<longleftrightarrow> rows t = []" using assms(3) by (metis map_is_Nil_conv)
  have x: "execute P (SelectMaxId ''Ingredients'') (files w DB) =
      Inr (files w DB, Scalar (sql_max (map VInt ns)))"
    using assms(1-3) plain_examples by (simp add: execute_def lower_examples)
  let ?w6 = "w\<lparr>stdin := rest,
        stdout := stdout w @
          [''Enter the category, e.g. Beer, Wine, Spirit: '',
           ''Enter the type of ingredient, e.g. Ale, White wine, Whiskey: '',
           ''Enter product name, e.g. Neck Oil, Gran Reserva, Green Label: '',
           ''Enter the brand name, e.g. Beavertown, Luis Felipe Edwards, Johnny Walker: '',
           ''If you wish, enter a description here: '',
           ''What units is the ingredient measured in, e.g. ml, dashes? ''],
        log := log w @ [Connect DB, Execute (SelectMaxId ''Ingredients''), Close]\<rparr>"
  have "Ingredient_create P w =
      then_do (ask_abv P)
        (\<lambda>abv. return [VInt (if rows t = [] then 1 else Max (set ns) + 1), VStr category,
           VStr grp, VStr name, VStr brand, VStr descr, VStr meas, VFloat abv]) ?w6"
    using assms(4) e
    by (simp add: Ingredient_create_def connect_def cur_execute_def x next_id_ints close_def
        then_do_input world_update_order)
  also have "\<dots> = (Inr [VInt (if rows t = [] then 1 else Max (set ns) + 1), VStr category,
           VStr grp, VStr name, VStr brand, VStr descr, VStr meas, VFloat abv], w')"
    unfolding then_do_def assms(5) by (simp add: return_def)
  finally show ?thesis .
qed

lemma py_int_x: "py_int ''x'' = None"
  by (simp add: py_int_def py_strip_def int_space_def code_def is_digit_def)

lemma py_int_37: "py_int ''37'' = Some 37"
  by (simp add: py_int_def py_strip_def int_space_def code_def is_digit_def digits_value_def
      digit_val_def)

text \<open>
  Claim C2. Where the identifiers stored in the target table are the integers \<open>ns\<close>,
  \<open>Drink.create\<close> and \<open>Ingredient.create\<close> return a record whose identifier is 1 when
  the table has no rows and the greatest of \<open>ns\<close> plus 1 otherwise, followed by the
  fields read from the console.
\<close>

theorem next_identifier:
  assumes "find_column (columns t) ''id'' = Some (i, a)"
    and "map (\<lambda>r. cell r i) (rows t) = map VInt ns"
  shows "(files w DB ''drinks'' = Some t
          \<and> stdin w = name # descr # prep # garnish # rest \<longrightarrow>
          Drink_create P w =
            (Inr [VInt (if rows t = [] then 1 else Max (set ns) + 1), VStr name,
                  VStr descr, VStr prep, VStr garnish],
             w\<lparr>stdin := rest,
               stdout := stdout w @
                 [''Enter drink name, e.g. Negroni, Gin & Tonic, Sangria: '',
                  ''If you wish, enter a description here: '',
                  ''How is the drink is prepared, e.g. Shaken, Stirred: '',
                  ''If appropriate, enter a garnish here: ''],
               log := log w @ [Connect DB, Execute (SelectMaxId ''Drinks''), Close]\<rparr>))
       \<and> (files w DB ''ingredients'' = Some t
          \<and> stdin w = category # grp # iname # brand # idescr # meas # rest
          \<and> ask_abv P (w\<lparr>stdin := rest,
               stdout := stdout w @
                 [''Enter the category, e.g. Beer, Wine, Spirit: '',
                  ''Enter the type of ingredient, e.g. Ale, White wine, Whiskey: '',
                  ''Enter product name, e.g. Neck Oil, Gran Reserva, Green Label: '',
                  ''Enter the brand name, e.g. Beavertown, Luis Felipe Edwards, Johnny Walker: '',
                  ''If you wish, enter a description here: '',
                  ''What units is the ingredient measured in, e.g. ml, dashes? ''],
               log := log w @ [Connect DB, Execute (SelectMaxId ''Ingredients''), Close]\<rparr>)
             = (Inr abv, w') \<longrightarrow>
          Ingredient_create P w =
            (Inr [VInt (if rows t = [] then 1 else Max (set ns) + 1), VStr category,
                  VStr grp, VStr iname, VStr brand, VStr idescr, VStr meas,
                  VFloat abv], w'))"
  using Drink_create_id [OF _ assms, of w name descr prep garnish rest P]
    Ingredient_create_id [OF _ assms, of w category grp iname brand idescr meas rest
      P abv w']
  by blast

theorem next_identifier_witness:
  "fst (Drink_create example_platform
          (example_world [''Martini'', '''', ''Stirred'', ''Olive'']))
     = Inr [VInt 3, VStr ''Martini'', VStr [], VStr ''Stirred'', VStr ''Olive'']
   \<and> fst (Drink_create example_platform
          (fresh_world [''Negroni'', ''Classic'', ''Stirred'', ''Orange peel'']))
     = Inr [VInt 1, VStr ''Negroni'', VStr ''Classic'', VStr ''Stirred'', VStr ''Orange peel'']
   \<and> fst (Ingredient_create example_platform
          (example_world [''Spirit'', ''Rum'', ''Dark'', ''Acme'', '''', ''ml'', ''x'', ''37'']))
     = Inr [VInt 4, VStr ''Spirit'', VStr ''Rum'', VStr ''Dark'', VStr ''Acme'', VStr [],
            VStr ''ml'', VFloat (Finite 37)]"
proof -
  have c: "find_column (columns (example_drinks\<lparr>rows := []\<rparr>)) ''id'' = Some (0, INTEGER)"
    using example_id_column(2) by simp
  have 1: "fst (Drink_create example_platform
          (example_world [''Martini'', '''', ''Stirred'', ''Olive'']))
     = Inr [VInt 3, VStr ''Martini'', VStr [], VStr ''Stirred'', VStr ''Olive'']"
    using next_identifier [of example_drinks 0 INTEGER "[1, 2]"
        "example_world [''Martini'', '''', ''Stirred'', ''Olive'']"
        "''Martini''" "''''" "''Stirred''" "''Olive''" "[]" example_platform]
      example_id_column(2)
    by (simp add: example_world_def example_db_def)
       (simp add: example_drinks_def cell_def)
  have 2: "fst (Drink_create example_platform
          (fresh_world [''Negroni'', ''Classic'', ''Stirred'', ''Orange peel'']))
     = Inr [VInt 1, VStr ''Negroni'', VStr ''Classic'', VStr ''Stirred'', VStr ''Orange peel'']"
    using next_identifier [of "example_drinks\<lparr>rows := []\<rparr>" 0 INTEGER "[]"
        "fresh_world [''Negroni'', ''Classic'', ''Stirred'', ''Orange peel'']"
        "''Negroni''" "''Classic''" "''Stirred''" "''Orange peel''" "[]" example_platform] c
    by (simp add: fresh_world_def)
  have a: "ask_abv example_platform w = (Inr (Finite 37), w\<lparr>stdin := [],
      stdout := stdout w @ [''Enter the ABV: '', ''<<< Please enter numbers only >>>'',
        ''Enter the ABV: '']\<rparr>)" if "stdin w = [''x'', ''37'']" for w
    using that
    by (simp add: ask_abv_def get_float.simps input_def print_def example_platform_def
        py_int_x py_int_37)
  have 3: "fst (Ingredient_create example_platform
          (example_world [''Spirit'', ''Rum'', ''Dark'', ''Acme'', '''', ''ml'', ''x'', ''37'']))
     = Inr [VInt 4, VStr ''Spirit'', VStr ''Rum'', VStr ''Dark'', VStr ''Acme'', VStr [],
            VStr ''ml'', VFloat (Finite 37)]"
    using next_identifier [of example_ingredients 0 INTEGER "[3]"
        "example_world [''Spirit'', ''Rum'', ''Dark'', ''Acme'', '''', ''ml'', ''x'', ''37'']"
        _ _ _ _ "[''x'', ''37'']" example_platform
        "''Spirit''" "''Rum''" "''Dark''" "''Acme''" "''''" "''ml''" "Finite 37"]
      example_id_column(1)
    by (simp add: example_world_def example_db_def a)
       (simp add: example_ingredients_def cell_def)
  from 1 2 3 show ?thesis by simp
qed

subsection \<open>Rows are only added\<close>

lemma append_only_refl: "append_only d d"
  by (simp add: append_only_def)

lemma answer_append_only:
  assumes "answer P s d = Inr (d', res)"
  shows "append_only d d'"
proof (cases s)
  case (CreateTableIfNotExists tbl cols)
  with assms show ?thesis
    by (auto simp: append_only_def split: if_splits option.splits)
next
  case (InsertValues tbl vals)
  with assms show ?thesis
    by (auto simp: append_only_def split: if_splits option.splits sum.splits)
next
  case (SelectCountWhere tbl kw)
  with assms answer_count [of P tbl kw d d' res] show ?thesis
    by (simp add: append_only_refl del: answer.simps)
next
  case (SelectAll tbl)
  with assms answer_all [of P tbl d d' res] show ?thesis
    by (simp add: append_only_refl del: answer.simps)
next
  case (SelectMaxId tbl)
  with assms answer_max [of P tbl d d' res] show ?thesis
    by (simp add: append_only_refl del: answer.simps)
qed

lemma create_table_append_only:
  assumes "modelled (CreateTableIfNotExists tbl cols) (files w db)"
  shows "append_only (files w f) (files (snd (create_table P db tbl cols w)) f)"
proof (cases "answer P (CreateTableIfNotExists tbl cols) (files w db)")
  case (Inl e)
  then show ?thesis
    by (simp add: create_table_unfold execute_modelled [OF assms] append_only_refl
        del: answer.simps)
next
  case (Inr p)
  obtain d res where p: "p = (d, res)" by (cases p)
  with Inr answer_append_only [of P _ "files w db" d res] show ?thesis
    by (simp add: create_table_unfold execute_modelled [OF assms] append_only_refl
        del: answer.simps)
qed

lemma insert_into_table_append_only:
  assumes "modelled (InsertValues tbl vals) (files w db)"
  shows "append_only (files w f) (files (snd (insert_into_table P db tbl vals w)) f)"
proof (cases "answer P (InsertValues tbl vals) (files w db)")
  case (Inl e)
  then show ?thesis
    by (simp add: insert_into_table_unfold execute_modelled [OF assms] append_only_refl
        del: answer.simps)
next
  case (Inr p)
  obtain d res where p: "p = (d, res)" by (cases p)
  with Inr answer_append_only [of P _ "files w db" d res] show ?thesis
    by (simp add: insert_into_table_unfold execute_modelled [OF assms] append_only_refl
        del: answer.simps)
qed

lemma entry_already_exists_files:
  "files (snd (entry_already_exists P tbl kw w)) = files w"
  by (simp add: entry_already_exists_unfold split: sum.splits prod.splits)

lemma ask_and_insert_entry_append_only:
  assumes "\<And>v. files (snd (create v)) = files v"
    and "\<forall>e w1. create w = (Inr e, w1) \<longrightarrow> modelled (InsertValues tbl e) (files w DB)"
  shows "append_only (files w f) (files (snd (ask_and_insert_entry P tbl create w)) f)"
proof (cases "create w")
  case (Pair r w1)
  with assms(1) [of w] have w1: "files w1 = files w" by simp
  show ?thesis
  proof (cases r)
    case (Inl e)
    with Pair w1 show ?thesis by (simp add: ask_and_insert_entry_def append_only_refl)
  next
    case (Inr entry_data)
    show ?thesis
    proof (cases entry_data)
      case Nil
      with Pair Inr w1 show ?thesis by (simp add: ask_and_insert_entry_def append_only_refl)
    next
      case (Cons entry_id others)
      obtain r2 w2 where c: "entry_already_exists P tbl [(''id'', entry_id)] w1 = (r2, w2)"
        by (cases "entry_already_exists P tbl [(''id'', entry_id)] w1")
      with entry_already_exists_files [of P tbl "[(''id'', entry_id)]" w1] w1
      have w2: "files w2 = files w" by simp
      from assms(2) Pair Inr have "modelled (InsertValues tbl entry_data) (files w DB)"
        by simp
      with w2 have m: "modelled (InsertValues tbl entry_data) (files w2 DB)" by simp
      show ?thesis
      proof (cases r2)
        case (Inl e)
        with Pair \<open>r = Inr entry_data\<close> Cons c w2 show ?thesis
          by (simp add: ask_and_insert_entry_def append_only_refl)
      next
        case b: (Inr b)
        with Pair \<open>r = Inr entry_data\<close> Cons c w2
          insert_into_table_append_only [OF m, of f P]
        show ?thesis
          by (cases b) (simp_all add: ask_and_insert_entry_def append_only_refl print_keeps)
      qed
    qed
  qed
qed

text \<open>
  Claim C9. Every operation of the program leaves each database file with all its
  tables and rows as they were, or with exactly one row added at the end of one table:
  \<open>create_table\<close>, \<open>entry_already_exists\<close>, \<open>insert_into_table\<close>, \<open>view_table\<close>, the two
  entry builders, and \<open>ask_and_insert_entry\<close> with either builder, from any state. For
  the two statements that write, the table name and the column definitions are those
  of the modelled fragment, as the program's own are.
\<close>

theorem store_append_only:
  "(modelled (CreateTableIfNotExists tbl cols) (files w db_name) \<longrightarrow>
      append_only (files w f) (files (snd (create_table P db_name tbl cols w)) f))
   \<and> append_only (files w f) (files (snd (entry_already_exists P tbl kwargs w)) f)
   \<and> (modelled (InsertValues tbl vals) (files w db_name) \<longrightarrow>
      append_only (files w f) (files (snd (insert_into_table P db_name tbl vals w)) f))
   \<and> append_only (files w f) (files (snd (view_table P tbl w)) f)
   \<and> append_only (files w f) (files (snd (Drink_create P w)) f)
   \<and> append_only (files w f) (files (snd (Ingredient_create P w)) f)
   \<and> ((\<forall>e w1. Drink_create P w = (Inr e, w1) \<longrightarrow>
          modelled (InsertValues tbl e) (files w DB)) \<longrightarrow>
      append_only (files w f) (files (snd (ask_and_insert_entry P tbl (Drink_create P) w)) f))
   \<and> ((\<forall>e w1. Ingredient_create P w = (Inr e, w1) \<longrightarrow>
          modelled (InsertValues tbl e) (files w DB)) \<longrightarrow>
      append_only (files w f)
        (files (snd (ask_and_insert_entry P tbl (Ingredient_create P) w)) f))"
  using create_table_append_only [of tbl cols w db_name f P]
    insert_into_table_append_only [of tbl vals w db_name f P]
    ask_and_insert_entry_append_only [where create = "Drink_create P" and tbl = tbl
      and w = w and f = f and P = P]
    ask_and_insert_entry_append_only [where create = "Ingredient_create P" and tbl = tbl
      and w = w and f = f and P = P]
  by (simp add: entry_already_exists_files view_table_files Drink_create_files
      Ingredient_create_files append_only_refl del: modelled.simps)

theorem store_append_only_witness:
  "append_only (files (example_world []) DB)
     (files (snd (insert_into_table example_platform DB ''Drinks''
        [VInt 3, VStr ''Martini'', VStr [], VStr ''Stirred'', VStr ''Olive'']
        (example_world []))) DB)
   \<and> map_option rows (files (snd (insert_into_table example_platform DB ''Drinks''
        [VInt 3, VStr ''Martini'', VStr [], VStr ''Stirred'', VStr ''Olive'']
        (example_world []))) DB ''drinks'')
     = Some [[VInt 1, VStr ''Negroni'', VStr ''Classic'', VStr ''Stirred'', VStr ''Orange peel''],
             [VInt 2, VStr ''Sangria'', VStr [], VStr ''Built'', VStr ''Fruit''],
             [VInt 3, VStr ''Martini'', VStr [], VStr ''Stirred'', VStr ''Olive'']]
   \<and> append_only (files (console []) DB)
     (files (snd (create_table example_platform DB ''Drinks''
        [''id INTEGER'', ''drink_name TEXT'', ''drink_description TEXT'',
         ''drink_method TEXT'', ''drink_garnish TEXT''] (console []))) DB)
   \<and> fst (Drink_create example_platform
            (example_world [''Martini'', '''', ''Stirred'', ''Olive'']))
       = Inr [VInt 3, VStr ''Martini'', VStr [], VStr ''Stirred'', VStr ''Olive'']
   \<and> append_only (files (example_world [''Martini'', '''', ''Stirred'', ''Olive'']) DB)
     (files (snd (ask_and_insert_entry example_platform ''Drinks''
        (Drink_create example_platform)
        (example_world [''Martini'', '''', ''Stirred'', ''Olive'']))) DB)"
proof -
  let ?vals = "[VInt 3, VStr ''Martini'', VStr [], VStr ''Stirred'', VStr ''Olive'']"
  let ?cols = "[''id INTEGER'', ''drink_name TEXT'', ''drink_description TEXT'',
         ''drink_method TEXT'', ''drink_garnish TEXT'']"
  let ?w = "example_world [''Martini'', '''', ''Stirred'', ''Olive'']"
  have m: "modelled (InsertValues ''Drinks'' ?vals) (files (example_world ls) DB)" for ls
    using example_tables(2) [of ls] plain_examples(1) example_plain_columns(2)
    by (simp add: small_values_def)
  have cd: "column_defs ?cols = Some (columns example_drinks)"
    unfolding example_drinks_def by code_simp
  have mc: "modelled (CreateTableIfNotExists ''Drinks'' ?cols) (files (console []) DB)"
    using plain_examples(1) cd by (simp add: small_texts_def del: column_defs.simps)
  obtain w1 where d: "Drink_create example_platform ?w = (Inr ?vals, w1)"
    using Drink_create_id [of ?w example_drinks 0 INTEGER "[1, 2]" "''Martini''" "''''"
        "''Stirred''" "''Olive''" "[]" example_platform]
      example_id_column(2)
    by (simp add: example_world_def example_db_def example_drinks_def cell_def)
  have md: "\<forall>e w1. Drink_create example_platform ?w = (Inr e, w1) \<longrightarrow>
      modelled (InsertValues ''Drinks'' e) (files ?w DB)"
    using m [of "[''Martini'', '''', ''Stirred'', ''Olive'']"] unfolding d by simp
  from m [of "[]"] store_append_only [of "''Drinks''" "[]" "example_world []" DB DB
      example_platform "[]" ?vals]
  have a: "append_only (files (example_world []) DB)
     (files (snd (insert_into_table example_platform DB ''Drinks'' ?vals
        (example_world []))) DB)"
    by blast
  have b: "map_option rows (files (snd (insert_into_table example_platform DB ''Drinks''
        ?vals (example_world []))) DB ''drinks'')
     = Some [[VInt 1, VStr ''Negroni'', VStr ''Classic'', VStr ''Stirred'', VStr ''Orange peel''],
             [VInt 2, VStr ''Sangria'', VStr [], VStr ''Built'', VStr ''Fruit''],
             [VInt 3, VStr ''Martini'', VStr [], VStr ''Stirred'', VStr ''Olive'']]"
    using example_tables(2) [of "[]"]
    by (simp add: insert_into_table_unfold execute_modelled [OF m] lower_examples bind_def
        affinity_examples apply_affinity_def example_drinks_def)
  from mc store_append_only [of "''Drinks''" ?cols "console []" DB DB example_platform "[]"
      "[]"]
  have c: "append_only (files (console []) DB)
     (files (snd (create_table example_platform DB ''Drinks'' ?cols (console []))) DB)"
    by blast
  from md store_append_only [of "''Drinks''" "[]" ?w DB DB example_platform "[]" "[]"]
  have e: "append_only (files ?w DB)
     (files (snd (ask_and_insert_entry example_platform ''Drinks''
        (Drink_create example_platform) ?w)) DB)"
    by blast
  from a b c d e show ?thesis by simp
qed

subsection \<open>The existence check\<close>

lemma row_matches_iff:
  "row_matches P cols conds r =
     (\<forall>(k, b)\<in>set conds. \<exists>i a. find_column cols k = Some (i, a)
          \<and> sql_equal (cell r i) (compare_value P a b))"
  by (auto simp: row_matches_def list_all_iff split: option.splits)

lemma answer_count_value:
  assumes "d (sql_lower tbl) = Some t" and "kwargs \<noteq> []" and "length kwargs \<le> 999"
    and "\<forall>k\<in>set (map fst kwargs). find_column (columns t) k \<noteq> None"
  shows "answer P (SelectCountWhere tbl kwargs) d =
     (case bind_all (map snd kwargs) of
        Inl e \<Rightarrow> Inl e
      | Inr bs \<Rightarrow> Inr (d, Count (length (filter
          (row_matches P (columns t) (zip (map fst kwargs) bs)) (rows t)))))"
  using assms by auto

lemma entry_already_exists_general:
  assumes "plain_name tbl" and "list_all plain_name (map fst kwargs)"
    and "small_values (map snd kwargs)"
    and "files w DB (sql_lower tbl) = Some t" and "kwargs \<noteq> []"
    and "length kwargs \<le> 999"
    and "\<forall>k\<in>set (map fst kwargs). find_column (columns t) k \<noteq> None"
  shows "entry_already_exists P tbl kwargs w =
     (case bind_all (map snd kwargs) of
        Inl e \<Rightarrow>
          (Inl e, w\<lparr>log := log w @ [Connect DB, Execute (SelectCountWhere tbl kwargs)]\<rparr>)
      | Inr bs \<Rightarrow>
          (Inr (\<exists>r\<in>set (rows t). row_matches P (columns t) (zip (map fst kwargs) bs) r),
           w\<lparr>log := log w @ [Connect DB, Execute (SelectCountWhere tbl kwargs), Close]\<rparr>))"
proof -
  have m: "modelled (SelectCountWhere tbl kwargs) (files w DB)"
    using assms(1-3,6) by simp
  show ?thesis
    using answer_count_value [of "files w DB" tbl t kwargs P] assms(4-7)
    by (simp add: entry_already_exists_unfold execute_modelled [OF m] filter_empty_conv
        split: sum.splits del: answer.simps)
qed

lemma small_values_head: "small_values (v # vs) \<Longrightarrow> small_values [v]"
  by (simp add: small_values_def)

lemma entry_already_exists_id:
  assumes "plain_name tbl" and "small_values [x]"
    and "files w DB (sql_lower tbl) = Some t"
    and "find_column (columns t) ''id'' = Some (i, a)"
  shows "entry_already_exists P tbl [(''id'', x)] w =
     (case bind x of
        Inl e \<Rightarrow>
          (Inl e, w\<lparr>log := log w @ [Connect DB, Execute (SelectCountWhere tbl [(''id'', x)])]\<rparr>)
      | Inr b \<Rightarrow>
          (Inr (\<exists>r\<in>set (rows t). sql_equal (cell r i) (compare_value P a b)),
           w\<lparr>log := log w @ [Connect DB, Execute (SelectCountWhere tbl [(''id'', x)]), Close]\<rparr>))"
  using entry_already_exists_general [of tbl "[(''id'', x)]" w t P] assms plain_examples(3)
  by (simp add: row_matches_iff split: sum.splits)




subsection \<open>Writing a record\<close>

lemma insert_into_table_effect:
  assumes "plain_name tbl" and "small_values vals"
    and "files w db (sql_lower tbl) = Some t" and "plain_columns (columns t)"
    and "vals \<noteq> []" and "length vals = length (columns t)"
  shows "insert_into_table P db tbl vals w =
     (case bind_all vals of
        Inl e \<Rightarrow> (Inl e, w\<lparr>log := log w @ [Connect db, Execute (InsertValues tbl vals)]\<rparr>)
      | Inr bs \<Rightarrow>
          (Inr (), w\<lparr>files := (files w)(db := (files w db)(sql_lower tbl \<mapsto>
                  t\<lparr>rows := rows t @
                    [map2 (\<lambda>c b. apply_affinity P (affinity_of (snd c)) b) (columns t) bs]\<rparr>)),
              log := log w @ [Connect db, Execute (InsertValues tbl vals), Commit, Close]\<rparr>))"
proof -
  have m: "modelled (InsertValues tbl vals) (files w db)"
    using assms(1-4) by simp
  have l: "\<not> 32766 < length vals"
    using assms(4,6) by (simp add: plain_columns_def)
  show ?thesis
    using assms(3,5,6) l
    by (simp add: insert_into_table_unfold execute_modelled [OF m] split: sum.splits)
qed

subsection \<open>The entry orchestrator\<close>

text \<open>
  Claim C1, amended. When the builder has returned a record whose identifier can be
  bound (no integer beyond 64 bits) and the table has an \<open>id\<close> column: if a stored row
  has the record's identifier, \<open>ask_and_insert_entry\<close> prints the message that the
  entry already exists and changes nothing else but the log, so every table keeps its
  rows; otherwise it is the call of \<open>insert_into_table\<close> with the whole record, and
  when the record has one value for each column, all of them bound, it becomes the last
  row of the table. The test reads the identifier column of the stored rows and the
  identifier of the record, nothing else. (An identifier beyond 64 bits, which the
  builders produce after the greatest identifier of 64 bits, makes the test raise, with
  neither message nor insertion.) The table has a plain name and plain columns, the
  texts of the record are small.
\<close>

theorem ask_and_insert_entry_duplicate:
  assumes "create w = (Inr (entry_id # others), w1)"
    and "plain_name tbl" and "small_values (entry_id # others)"
    and "files w1 DB (sql_lower tbl) = Some t" and "plain_columns (columns t)"
    and "find_column (columns t) ''id'' = Some (i, a)" and "bind entry_id = Inr b"
  shows "((\<exists>r\<in>set (rows t). sql_equal (cell r i) (compare_value P a b)) \<longrightarrow>
            ask_and_insert_entry P tbl create w =
              (Inr (), w1\<lparr>log := log w1 @
                   [Connect DB, Execute (SelectCountWhere tbl [(''id'', entry_id)]), Close],
                 stdout := stdout w1 @ [''This '' @ py_lower (butlast tbl) @ '' already exists.'']\<rparr>))
       \<and> (\<not> (\<exists>r\<in>set (rows t). sql_equal (cell r i) (compare_value P a b)) \<longrightarrow>
            ask_and_insert_entry P tbl create w =
              insert_into_table P DB tbl (entry_id # others)
                (w1\<lparr>log := log w1 @
                   [Connect DB, Execute (SelectCountWhere tbl [(''id'', entry_id)]), Close]\<rparr>))
       \<and> (\<forall>bs. \<not> (\<exists>r\<in>set (rows t). sql_equal (cell r i) (compare_value P a b))
              \<and> length (entry_id # others) = length (columns t)
              \<and> bind_all (entry_id # others) = Inr bs \<longrightarrow>
            ask_and_insert_entry P tbl create w =
              (Inr (), w1\<lparr>files := (files w1)(DB := (files w1 DB)(sql_lower tbl \<mapsto>
                     t\<lparr>rows := rows t @
                       [map2 (\<lambda>c b. apply_affinity P (affinity_of (snd c)) b) (columns t) bs]\<rparr>)),
                 log := log w1 @
                   [Connect DB, Execute (SelectCountWhere tbl [(''id'', entry_id)]), Close,
                    Connect DB, Execute (InsertValues tbl (entry_id # others)), Commit,
                    Close]\<rparr>))"
proof -
  let ?dup = "\<exists>r\<in>set (rows t). sql_equal (cell r i) (compare_value P a b)"
  let ?w2 = "w1\<lparr>log := log w1 @
      [Connect DB, Execute (SelectCountWhere tbl [(''id'', entry_id)]), Close]\<rparr>"
  have c: "entry_already_exists P tbl [(''id'', entry_id)] w1 = (Inr ?dup, ?w2)"
    using entry_already_exists_id [OF assms(2) small_values_head [OF assms(3)] assms(4,6), of P]
      assms(7)
    by simp
  have 1: "?dup \<longrightarrow> ask_and_insert_entry P tbl create w =
      (Inr (), w1\<lparr>log := log w1 @
           [Connect DB, Execute (SelectCountWhere tbl [(''id'', entry_id)]), Close],
         stdout := stdout w1 @ [''This '' @ py_lower (butlast tbl) @ '' already exists.'']\<rparr>)"
    using assms(1) c by (simp add: ask_and_insert_entry_def print_def)
  have 2: "\<not> ?dup \<longrightarrow> ask_and_insert_entry P tbl create w =
      insert_into_table P DB tbl (entry_id # others) ?w2"
    using assms(1) c by (simp add: ask_and_insert_entry_def)
  have 3: "ask_and_insert_entry P tbl create w =
      (Inr (), w1\<lparr>files := (files w1)(DB := (files w1 DB)(sql_lower tbl \<mapsto>
             t\<lparr>rows := rows t @
               [map2 (\<lambda>c b. apply_affinity P (affinity_of (snd c)) b) (columns t) bs]\<rparr>)),
         log := log w1 @
           [Connect DB, Execute (SelectCountWhere tbl [(''id'', entry_id)]), Close,
            Connect DB, Execute (InsertValues tbl (entry_id # others)), Commit, Close]\<rparr>)"
    if "\<not> ?dup" and "length (entry_id # others) = length (columns t)"
      and "bind_all (entry_id # others) = Inr bs" for bs
  proof -
    have f: "files ?w2 DB (sql_lower tbl) = Some t" using assms(4) by simp
    have "insert_into_table P DB tbl (entry_id # others) ?w2 =
        (Inr (), ?w2\<lparr>files := (files ?w2)(DB := (files ?w2 DB)(sql_lower tbl \<mapsto>
             t\<lparr>rows := rows t @
               [map2 (\<lambda>c b. apply_affinity P (affinity_of (snd c)) b) (columns t) bs]\<rparr>)),
           log := log ?w2 @
             [Connect DB, Execute (InsertValues tbl (entry_id # others)), Commit, Close]\<rparr>)"
      using insert_into_table_effect [OF assms(2,3) f assms(5) _ that(2), of P] that(3)
      by simp
    with 2 that(1) show ?thesis by simp
  qed
  from 1 2 3 show ?thesis by blast
qed

theorem ask_and_insert_entry_duplicate_witness:
  "ask_and_insert_entry example_platform ''Ingredients'' fixed_entry (example_world []) =
     (Inr (), (example_world [])\<lparr>log :=
          [Connect DB, Execute (SelectCountWhere ''Ingredients'' [(''id'', VInt 3)]), Close],
        stdout := [''This ingredient already exists.'']\<rparr>)
   \<and> files (snd (ask_and_insert_entry example_platform ''Ingredients'' fixed_entry
           (example_world []))) DB ''ingredients'' = Some example_ingredients
   \<and> length (rows example_ingredients) = 1
   \<and> fst (ask_and_insert_entry example_platform ''Drinks'' (Drink_create example_platform)
           (example_world [''Martini'', '''', ''Stirred'', ''Olive''])) = Inr ()
   \<and> map_option rows (files (snd (ask_and_insert_entry example_platform ''Drinks''
           (Drink_create example_platform)
           (example_world [''Martini'', '''', ''Stirred'', ''Olive'']))) DB ''drinks'')
     = Some [[VInt 1, VStr ''Negroni'', VStr ''Classic'', VStr ''Stirred'', VStr ''Orange peel''],
             [VInt 2, VStr ''Sangria'', VStr [], VStr ''Built'', VStr ''Fruit''],
             [VInt 3, VStr ''Martini'', VStr [], VStr ''Stirred'', VStr ''Olive'']]"
proof -
  have e: "py_lower ''Ingredient'' = ''ingredient''" by code_simp
  have d: "\<exists>r\<in>set (rows example_ingredients).
      sql_equal (cell r 0) (compare_value example_platform INTEGER (VInt 3))"
    by (simp add: example_ingredients_def cell_def compare_value_def)
  have r: "ask_and_insert_entry example_platform ''Ingredients'' fixed_entry (example_world []) =
     (Inr (), (example_world [])\<lparr>log :=
          [Connect DB, Execute (SelectCountWhere ''Ingredients'' [(''id'', VInt 3)]), Close],
        stdout := [''This ingredient already exists.'']\<rparr>)"
    using ask_and_insert_entry_duplicate [of fixed_entry "example_world []" "VInt 3"
      "[VStr ''Spirit'', VStr ''Rum'', VStr ''Dark'', VStr ''Acme'', VStr [], VStr ''ml'',
        VFloat (Finite 37)]"
      "example_world []" "''Ingredients''" example_ingredients 0 INTEGER "VInt 3"
      example_platform] d
    by (simp add: fixed_entry_def return_def example_tables example_id_column bind_def
        plain_examples example_plain_columns small_values_def e)
       (simp add: example_world_def)
  have k: "files (snd (ask_and_insert_entry example_platform ''Ingredients'' fixed_entry
           (example_world []))) DB ''ingredients'' = Some example_ingredients"
    unfolding r using example_tables(1) [of "[]"] by (simp add: lower_examples)
  let ?w = "example_world [''Martini'', '''', ''Stirred'', ''Olive'']"
  define w1 where "w1 = ?w\<lparr>stdin := [],
      stdout := stdout ?w @
        [''Enter drink name, e.g. Negroni, Gin & Tonic, Sangria: '',
         ''If you wish, enter a description here: '',
         ''How is the drink is prepared, e.g. Shaken, Stirred: '',
         ''If appropriate, enter a garnish here: ''],
      log := log ?w @ [Connect DB, Execute (SelectMaxId ''Drinks''), Close]\<rparr>"
  have b: "Drink_create example_platform ?w =
      (Inr [VInt 3, VStr ''Martini'', VStr [], VStr ''Stirred'', VStr ''Olive''], w1)"
    unfolding w1_def
    using Drink_create_id [of ?w example_drinks 0 INTEGER "[1, 2]" "''Martini''" "''''"
        "''Stirred''" "''Olive''" "[]" example_platform]
      example_id_column(2)
    by (simp add: example_world_def example_db_def)
       (simp add: example_drinks_def cell_def)
  have t1: "files w1 DB (sql_lower ''Drinks'') = Some example_drinks"
    using example_tables(2) [of "[''Martini'', '''', ''Stirred'', ''Olive'']"]
    by (simp add: w1_def)
  have n: "\<not> (\<exists>r\<in>set (rows example_drinks).
      sql_equal (cell r 0) (compare_value example_platform INTEGER (VInt 3)))"
    by (simp add: example_drinks_def cell_def compare_value_def)
  have a: "map2 (\<lambda>c b. apply_affinity example_platform (affinity_of (snd c)) b)
      (columns example_drinks)
      [VInt 3, VStr ''Martini'', VStr [], VStr ''Stirred'', VStr ''Olive'']
      = [VInt 3, VStr ''Martini'', VStr [], VStr ''Stirred'', VStr ''Olive'']"
    by (simp add: example_drinks_def affinity_examples apply_affinity_def)
  have h: "small_values [VInt 3, VStr ''Martini'', VStr [], VStr ''Stirred'', VStr ''Olive'']"
    "bind (VInt 3) = Inr (VInt 3)"
    "bind_all [VInt 3, VStr ''Martini'', VStr [], VStr ''Stirred'', VStr ''Olive'']
      = Inr [VInt 3, VStr ''Martini'', VStr [], VStr ''Stirred'', VStr ''Olive'']"
    "length [VInt 3, VStr ''Martini'', VStr [], VStr ''Stirred'', VStr ''Olive'']
      = length (columns example_drinks)"
    by (simp_all add: small_values_def bind_def example_drinks_def)
  have i: "ask_and_insert_entry example_platform ''Drinks'' (Drink_create example_platform) ?w =
      (Inr (), w1\<lparr>files := (files w1)(DB := (files w1 DB)(sql_lower ''Drinks'' \<mapsto>
             example_drinks\<lparr>rows := rows example_drinks @
               [[VInt 3, VStr ''Martini'', VStr [], VStr ''Stirred'', VStr ''Olive'']]\<rparr>)),
         log := log w1 @
           [Connect DB, Execute (SelectCountWhere ''Drinks'' [(''id'', VInt 3)]), Close,
            Connect DB, Execute (InsertValues ''Drinks''
              [VInt 3, VStr ''Martini'', VStr [], VStr ''Stirred'', VStr ''Olive'']), Commit,
            Close]\<rparr>)"
  proof -
    have "ask_and_insert_entry example_platform ''Drinks'' (Drink_create example_platform) ?w =
      (Inr (), w1\<lparr>files := (files w1)(DB := (files w1 DB)(sql_lower ''Drinks'' \<mapsto>
             example_drinks\<lparr>rows := rows example_drinks @
               [map2 (\<lambda>c b. apply_affinity example_platform (affinity_of (snd c)) b)
                  (columns example_drinks)
                  [VInt 3, VStr ''Martini'', VStr [], VStr ''Stirred'', VStr ''Olive'']]\<rparr>)),
         log := log w1 @
           [Connect DB, Execute (SelectCountWhere ''Drinks'' [(''id'', VInt 3)]), Close,
            Connect DB, Execute (InsertValues ''Drinks''
              [VInt 3, VStr ''Martini'', VStr [], VStr ''Stirred'', VStr ''Olive'']), Commit,
            Close]\<rparr>)"
      using ask_and_insert_entry_duplicate [of "Drink_create example_platform" ?w "VInt 3"
        "[VStr ''Martini'', VStr [], VStr ''Stirred'', VStr ''Olive'']" w1 "''Drinks''"
        example_drinks 0 INTEGER "VInt 3" example_platform,
        OF b plain_examples(1) h(1) t1 example_plain_columns(2) example_id_column(2) h(2)]
        n h(3,4)
      by blast
    then show ?thesis unfolding a .
  qed
  have j: "map_option rows (files (snd (ask_and_insert_entry example_platform ''Drinks''
           (Drink_create example_platform) ?w)) DB ''drinks'')
     = Some [[VInt 1, VStr ''Negroni'', VStr ''Classic'', VStr ''Stirred'', VStr ''Orange peel''],
             [VInt 2, VStr ''Sangria'', VStr [], VStr ''Built'', VStr ''Fruit''],
             [VInt 3, VStr ''Martini'', VStr [], VStr ''Stirred'', VStr ''Olive'']]"
    unfolding i by (simp add: lower_examples example_drinks_def)
  have g: "fst (ask_and_insert_entry example_platform ''Drinks'' (Drink_create example_platform)
           ?w) = Inr ()"
    unfolding i by simp
  from r k g j show ?thesis by (simp add: example_ingredients_def)
qed

text \<open>
  The claim C1 as stated fails: after the drink with the greatest identifier of 64
  bits, \<open>Drink.create\<close> returns the identifier \<open>2\<^sup>6\<^sup>3\<close>, which no stored row has; the
  duplicate test raises \<open>OverflowError\<close>, and the record is neither reported as a
  duplicate nor inserted.
\<close>

theorem identifier_beyond_64_bits:
  "fst (Drink_create example_platform
          (last_id_world [''Martini'', '''', ''Stirred'', ''Olive'']))
     = Inr [VInt (2 ^ 63), VStr ''Martini'', VStr [], VStr ''Stirred'', VStr ''Olive'']
   \<and> fst (ask_and_insert_entry example_platform ''Drinks'' (Drink_create example_platform)
          (last_id_world [''Martini'', '''', ''Stirred'', ''Olive''])) = Inl OverflowError
   \<and> stdout (snd (ask_and_insert_entry example_platform ''Drinks''
          (Drink_create example_platform)
          (last_id_world [''Martini'', '''', ''Stirred'', ''Olive''])))
     = [''Enter drink name, e.g. Negroni, Gin & Tonic, Sangria: '',
        ''If you wish, enter a description here: '',
        ''How is the drink is prepared, e.g. Shaken, Stirred: '',
        ''If appropriate, enter a garnish here: '']
   \<and> map_option rows (files (snd (ask_and_insert_entry example_platform ''Drinks''
          (Drink_create example_platform)
          (last_id_world [''Martini'', '''', ''Stirred'', ''Olive'']))) DB ''drinks'')
     = Some [[VInt (2 ^ 63 - 1), VStr ''Negroni'', VStr ''Classic'', VStr ''Stirred'',
              VStr ''Orange peel'']]"
proof -
  let ?w = "last_id_world [''Martini'', '''', ''Stirred'', ''Olive'']"
  let ?t = "example_drinks\<lparr>rows := [[VInt (2 ^ 63 - 1), VStr ''Negroni'', VStr ''Classic'',
      VStr ''Stirred'', VStr ''Orange peel'']]\<rparr>"
  define w1 where "w1 = ?w\<lparr>stdin := [],
      stdout := stdout ?w @
        [''Enter drink name, e.g. Negroni, Gin & Tonic, Sangria: '',
         ''If you wish, enter a description here: '',
         ''How is the drink is prepared, e.g. Shaken, Stirred: '',
         ''If appropriate, enter a garnish here: ''],
      log := log ?w @ [Connect DB, Execute (SelectMaxId ''Drinks''), Close]\<rparr>"
  have c: "find_column (columns ?t) ''id'' = Some (0, INTEGER)"
    using example_id_column(2) by simp
  have b: "Drink_create example_platform ?w =
      (Inr [VInt (2 ^ 63), VStr ''Martini'', VStr [], VStr ''Stirred'', VStr ''Olive''], w1)"
    unfolding w1_def
    using Drink_create_id [of ?w ?t 0 INTEGER "[2 ^ 63 - 1]" "''Martini''" "''''"
        "''Stirred''" "''Olive''" "[]" example_platform] c
    by (simp add: last_id_world_def cell_def)
  have t1: "files w1 DB (sql_lower ''Drinks'') = Some ?t"
    by (simp add: w1_def last_id_world_def lower_examples)
  have s1: "small_values [VInt (2 ^ 63)]" by (simp add: small_values_def)
  have x: "entry_already_exists example_platform ''Drinks'' [(''id'', VInt (2 ^ 63))] w1 =
      (Inl OverflowError, w1\<lparr>log := log w1 @
         [Connect DB, Execute (SelectCountWhere ''Drinks'' [(''id'', VInt (2 ^ 63))])]\<rparr>)"
    using entry_already_exists_id [OF plain_examples(1) s1 t1 c, of example_platform]
    by (simp add: bind_def)
  have r: "ask_and_insert_entry example_platform ''Drinks'' (Drink_create example_platform) ?w =
      (Inl OverflowError, w1\<lparr>log := log w1 @
         [Connect DB, Execute (SelectCountWhere ''Drinks'' [(''id'', VInt (2 ^ 63))])]\<rparr>)"
    using x unfolding ask_and_insert_entry_def b by simp
  show ?thesis
    unfolding r b by (simp add: w1_def last_id_world_def lower_examples)
qed

subsection \<open>Insertion and reading back\<close>

lemma bind_all_unchanged:
  "list_all (\<lambda>v. bind v = Inr v) vs \<Longrightarrow> bind_all vs = Inr vs"
  by (induction vs) simp_all

lemma affinity_unchanged:
  "list_all2 (\<lambda>c v. keeps (affinity_of (snd c)) v) cs vs \<Longrightarrow>
     map2 (\<lambda>c b. apply_affinity P (affinity_of (snd c)) b) cs vs = vs"
  by (induction cs vs rule: list_all2_induct) (simp_all add: apply_affinity_def)

lemma stored_unchanged_row:
  assumes "list_all2 (\<lambda>c v. stored_unchanged (affinity_of (snd c)) v) cs vs"
  shows "length vs = length cs" and "bind_all vs = Inr vs"
    and "map2 (\<lambda>c b. apply_affinity P (affinity_of (snd c)) b) cs vs = vs"
proof -
  from assms show "length vs = length cs" by (simp add: list_all2_lengthD)
  from assms have "list_all (\<lambda>v. bind v = Inr v) vs"
    by (induction cs vs rule: list_all2_induct) (simp_all add: stored_unchanged_def)
  then show "bind_all vs = Inr vs" by (rule bind_all_unchanged)
  from assms have "list_all2 (\<lambda>c v. keeps (affinity_of (snd c)) v) cs vs"
    by (induction cs vs rule: list_all2_induct) (simp_all add: stored_unchanged_def)
  then show "map2 (\<lambda>c b. apply_affinity P (affinity_of (snd c)) b) cs vs = vs"
    by (rule affinity_unchanged)
qed

lemma view_table_effect:
  assumes "plain_name tbl" and "files w DB (sql_lower tbl) = Some t"
  shows "view_table P tbl w =
     (Inr (), w\<lparr>stdout := stdout w @ py_join [CHR 0x09] (map fst (columns t))
           # map (\<lambda>r. py_join [CHR 0x09] (map (py_str P) r)) (rows t),
         log := log w @ [Connect DB, Execute (SelectAll tbl), Close]\<rparr>)"
proof -
  have m: "modelled (SelectAll tbl) (files w DB)" using assms(1) by simp
  show ?thesis
    using assms(2) by (simp add: view_table_unfold execute_modelled [OF m])
qed

lemma digit_examples: "str_of_int 1 = ''1''" "str_of_int 2 = ''2''" "str_of_int 3 = ''3''"
  by code_simp+

text \<open>
  Claim C4, amended. A record inserted with \<open>insert_into_table\<close> into a table whose
  columns are plain (a name and a type, no constraint), one value for each column, each
  of a kind that the column keeps as it is (\<open>None\<close> anywhere; an integer of 64 bits in an
  integer column; a float other than NaN and negative zero in a real column; a text in
  a text column; any such value in a column without affinity), is the last row of the
  table afterwards. Reading the table back gives the rows it had and then the inserted
  values, unchanged, under the names of the columns; \<open>view_table\<close> prints the header,
  one line for each earlier row and, last, the line of the inserted values. The table
  has a plain name and the texts of the record are small.
\<close>

theorem insert_then_fetch:
  assumes "plain_name tbl" and "small_values vals"
    and "files w DB (sql_lower tbl) = Some t" and "plain_columns (columns t)"
    and "vals \<noteq> []"
    and "list_all2 (\<lambda>c v. stored_unchanged (affinity_of (snd c)) v) (columns t) vals"
  shows "\<exists>w'. insert_into_table P DB tbl vals w = (Inr (), w')
           \<and> files w' DB (sql_lower tbl) = Some (t\<lparr>rows := rows t @ [vals]\<rparr>)
           \<and> execute P (SelectAll tbl) (files w' DB) =
               Inr (files w' DB, Rows (map fst (columns t)) (rows t @ [vals]))
           \<and> view_table P tbl w' =
               (Inr (), w'\<lparr>stdout := stdout w' @ py_join [CHR 0x09] (map fst (columns t))
                     # map (\<lambda>r. py_join [CHR 0x09] (map (py_str P) r)) (rows t @ [vals]),
                   log := log w' @ [Connect DB, Execute (SelectAll tbl), Close]\<rparr>)"
proof -
  let ?t' = "t\<lparr>rows := rows t @ [vals]\<rparr>"
  define w' where "w' = w\<lparr>files := (files w)(DB := (files w DB)(sql_lower tbl \<mapsto> ?t')),
      log := log w @ [Connect DB, Execute (InsertValues tbl vals), Commit, Close]\<rparr>"
  have i: "insert_into_table P DB tbl vals w = (Inr (), w')"
    using insert_into_table_effect [OF assms(1-5) stored_unchanged_row(1) [OF assms(6)], of P]
      stored_unchanged_row(2) [OF assms(6)] stored_unchanged_row(3) [OF assms(6), of P]
    by (simp add: w'_def)
  have f: "files w' DB (sql_lower tbl) = Some ?t'" by (simp add: w'_def)
  have m: "modelled (SelectAll tbl) (files w' DB)" using assms(1) by simp
  have s: "execute P (SelectAll tbl) (files w' DB) =
      Inr (files w' DB, Rows (map fst (columns t)) (rows t @ [vals]))"
    using f by (simp add: execute_modelled [OF m])
  have v: "view_table P tbl w' =
      (Inr (), w'\<lparr>stdout := stdout w' @ py_join [CHR 0x09] (map fst (columns t))
            # map (\<lambda>r. py_join [CHR 0x09] (map (py_str P) r)) (rows t @ [vals]),
          log := log w' @ [Connect DB, Execute (SelectAll tbl), Close]\<rparr>)"
    using view_table_effect [OF assms(1) f, of P] by simp
  from i f s v show ?thesis by blast
qed

theorem insert_then_fetch_witness:
  "\<exists>w'. insert_into_table example_platform DB ''Drinks''
       [VInt 3, VStr ''Martini'', VStr [], VStr ''Stirred'', VStr ''Olive''] (example_world [])
       = (Inr (), w')
     \<and> execute example_platform (SelectAll ''Drinks'') (files w' DB) =
         Inr (files w' DB,
              Rows [''id'', ''drink_name'', ''drink_description'', ''drink_method'',
                    ''drink_garnish'']
                [[VInt 1, VStr ''Negroni'', VStr ''Classic'', VStr ''Stirred'',
                  VStr ''Orange peel''],
                 [VInt 2, VStr ''Sangria'', VStr [], VStr ''Built'', VStr ''Fruit''],
                 [VInt 3, VStr ''Martini'', VStr [], VStr ''Stirred'', VStr ''Olive'']])
     \<and> fst (view_table example_platform ''Drinks'' w') = Inr ()
     \<and> stdout (snd (view_table example_platform ''Drinks'' w')) =
         [py_join [CHR 0x09] [''id'', ''drink_name'', ''drink_description'', ''drink_method'',
            ''drink_garnish''],
          py_join [CHR 0x09] [''1'', ''Negroni'', ''Classic'', ''Stirred'', ''Orange peel''],
          py_join [CHR 0x09] [''2'', ''Sangria'', [], ''Built'', ''Fruit''],
          py_join [CHR 0x09] [''3'', ''Martini'', [], ''Stirred'', ''Olive'']]"
proof -
  have k: "list_all2 (\<lambda>c v. stored_unchanged (affinity_of (snd c)) v) (columns example_drinks)
      [VInt 3, VStr ''Martini'', VStr [], VStr ''Stirred'', VStr ''Olive'']"
    by (simp add: example_drinks_def stored_unchanged_def bind_def affinity_examples)
  have h: "small_values [VInt 3, VStr ''Martini'', VStr [], VStr ''Stirred'', VStr ''Olive'']"
    by (simp add: small_values_def)
  from insert_then_fetch [OF plain_examples(1) h example_tables(2) [of "[]"]
      example_plain_columns(2) _ k, of example_platform]
  obtain w' where w: "insert_into_table example_platform DB ''Drinks''
       [VInt 3, VStr ''Martini'', VStr [], VStr ''Stirred'', VStr ''Olive''] (example_world [])
       = (Inr (), w')"
    "execute example_platform (SelectAll ''Drinks'') (files w' DB) =
       Inr (files w' DB, Rows (map fst (columns example_drinks)) (rows example_drinks @
         [[VInt 3, VStr ''Martini'', VStr [], VStr ''Stirred'', VStr ''Olive'']]))"
    "view_table example_platform ''Drinks'' w' =
       (Inr (), w'\<lparr>stdout := stdout w' @
             py_join [CHR 0x09] (map fst (columns example_drinks))
             # map (\<lambda>r. py_join [CHR 0x09] (map (py_str example_platform) r))
                 (rows example_drinks @
                    [[VInt 3, VStr ''Martini'', VStr [], VStr ''Stirred'', VStr ''Olive'']]),
           log := log w' @ [Connect DB, Execute (SelectAll ''Drinks''), Close]\<rparr>)"
    by auto
  have o: "stdout w' = []"
    using w(1) example_tables(2) [of "[]"] example_plain_columns(2) plain_examples(1) h
    by (simp add: insert_into_table_unfold execute_def split: sum.splits prod.splits)
       (auto simp: example_world_def)
  have "fst (view_table example_platform ''Drinks'' w') = Inr ()"
    "stdout (snd (view_table example_platform ''Drinks'' w')) =
         [py_join [CHR 0x09] [''id'', ''drink_name'', ''drink_description'', ''drink_method'',
            ''drink_garnish''],
          py_join [CHR 0x09] [''1'', ''Negroni'', ''Classic'', ''Stirred'', ''Orange peel''],
          py_join [CHR 0x09] [''2'', ''Sangria'', [], ''Built'', ''Fruit''],
          py_join [CHR 0x09] [''3'', ''Martini'', [], ''Stirred'', ''Olive'']]"
    unfolding w(3) by (simp_all add: o example_drinks_def digit_examples)
  moreover have "execute example_platform (SelectAll ''Drinks'') (files w' DB) =
         Inr (files w' DB,
              Rows [''id'', ''drink_name'', ''drink_description'', ''drink_method'',
                    ''drink_garnish'']
                [[VInt 1, VStr ''Negroni'', VStr ''Classic'', VStr ''Stirred'',
                  VStr ''Orange peel''],
                 [VInt 2, VStr ''Sangria'', VStr [], VStr ''Built'', VStr ''Fruit''],
                 [VInt 3, VStr ''Martini'', VStr [], VStr ''Stirred'', VStr ''Olive'']])"
    unfolding w(2) by (simp add: example_drinks_def)
  ultimately show ?thesis using w(1) by blast
qed

text \<open>
  The claim C4 as stated fails for two kinds of value: an integer beyond 64 bits is not
  inserted at all, the insertion raises \<open>OverflowError\<close>; a float NaN is stored as
  \<open>None\<close>.
\<close>

theorem insert_changes_value:
  "length [VInt (2 ^ 63), VStr ''Martini'', VStr [], VStr ''Stirred'', VStr ''Olive'']
     = length (columns example_drinks)
   \<and> insert_into_table example_platform DB ''Drinks''
       [VInt (2 ^ 63), VStr ''Martini'', VStr [], VStr ''Stirred'', VStr ''Olive'']
       (example_world [])
     = (Inl OverflowError, (example_world [])\<lparr>log := [Connect DB, Execute (InsertValues ''Drinks''
          [VInt (2 ^ 63), VStr ''Martini'', VStr [], VStr ''Stirred'', VStr ''Olive''])]\<rparr>)
   \<and> length [VInt 4, VStr ''Spirit'', VStr ''Rum'', VStr ''Dark'', VStr ''Acme'', VStr [],
         VStr ''ml'', VFloat NaN]
     = length (columns example_ingredients)
   \<and> map_option rows (files (snd (insert_into_table example_platform DB ''Ingredients''
       [VInt 4, VStr ''Spirit'', VStr ''Rum'', VStr ''Dark'', VStr ''Acme'', VStr [],
         VStr ''ml'', VFloat NaN]
       (example_world []))) DB ''ingredients'')
     = Some (rows example_ingredients @
         [[VInt 4, VStr ''Spirit'', VStr ''Rum'', VStr ''Dark'', VStr ''Acme'', VStr [],
           VStr ''ml'', VNone]])"
proof -
  have 1: "length [VInt (2 ^ 63), VStr ''Martini'', VStr [], VStr ''Stirred'', VStr ''Olive'']
     = length (columns example_drinks)"
    by (simp add: example_drinks_def)
  have s1: "small_values
      [VInt (2 ^ 63), VStr ''Martini'', VStr [], VStr ''Stirred'', VStr ''Olive'']"
    by (simp add: small_values_def)
  have 2: "insert_into_table example_platform DB ''Drinks''
       [VInt (2 ^ 63), VStr ''Martini'', VStr [], VStr ''Stirred'', VStr ''Olive'']
       (example_world [])
     = (Inl OverflowError, (example_world [])\<lparr>log := [Connect DB, Execute (InsertValues ''Drinks''
          [VInt (2 ^ 63), VStr ''Martini'', VStr [], VStr ''Stirred'', VStr ''Olive''])]\<rparr>)"
    using insert_into_table_effect [OF plain_examples(1) s1 example_tables(2) [of "[]"]
        example_plain_columns(2) _ 1, of example_platform]
    by (simp add: bind_def) (simp add: example_world_def)
  have 3: "length [VInt 4, VStr ''Spirit'', VStr ''Rum'', VStr ''Dark'', VStr ''Acme'', VStr [],
         VStr ''ml'', VFloat NaN]
     = length (columns example_ingredients)"
    by (simp add: example_ingredients_def)
  have s2: "small_values [VInt 4, VStr ''Spirit'', VStr ''Rum'', VStr ''Dark'', VStr ''Acme'',
      VStr [], VStr ''ml'', VFloat NaN]"
    by (simp add: small_values_def)
  have a: "map2 (\<lambda>c b. apply_affinity example_platform (affinity_of (snd c)) b)
      (columns example_ingredients)
      [VInt 4, VStr ''Spirit'', VStr ''Rum'', VStr ''Dark'', VStr ''Acme'', VStr [],
         VStr ''ml'', VNone]
      = [VInt 4, VStr ''Spirit'', VStr ''Rum'', VStr ''Dark'', VStr ''Acme'', VStr [],
         VStr ''ml'', VNone]"
    by (simp add: example_ingredients_def affinity_examples apply_affinity_def)
  have 4: "map_option rows (files (snd (insert_into_table example_platform DB ''Ingredients''
       [VInt 4, VStr ''Spirit'', VStr ''Rum'', VStr ''Dark'', VStr ''Acme'', VStr [],
         VStr ''ml'', VFloat NaN]
       (example_world []))) DB ''ingredients'')
     = Some (rows example_ingredients @
         [[VInt 4, VStr ''Spirit'', VStr ''Rum'', VStr ''Dark'', VStr ''Acme'', VStr [],
           VStr ''ml'', VNone]])"
    using insert_into_table_effect [OF plain_examples(2) s2 example_tables(1) [of "[]"]
        example_plain_columns(1) _ 3, of example_platform] a
    by (simp add: bind_def lower_examples)
  from 1 2 3 4 show ?thesis by blast
qed

end
